theory Spec2Isabelle
  imports Complex_Main
begin

section \<open>Temporal action detection head: label assignment, decoding, losses, inference\<close>

text \<open>
  A shallow embedding of \<^verbatim>\<open>PtTransformer\<close> in
  \<^verbatim>\<open>actionformer+CLIP/libs/modeling/meta_archs.py\<close>.

  Numbers. A finite float is modelled by the real it denotes: rounding and overflow are
  not modelled. The special values are modelled where the source itself introduces or
  tests them: \<^verbatim>\<open>float('inf')\<close> in label assignment and
  \<^verbatim>\<open>torch.isnan\<close> in \<^verbatim>\<open>decode_offset\<close>. The network outputs
  that reach \<^verbatim>\<open>decode_offset\<close>, and the losses computed from them, range over a
  float type with infinities and NaN; targets, points, scores at inference and times are
  reals.

  Tensors. A tensor of shape \<open>[N]\<close> is a list, one of shape \<open>[N, M]\<close> a list of
  rows. Every vectorised statement of the source is written out per element.
\<close>

subsection \<open>Errors and Python values\<close>

datatype error =
    KeyError string
  | AttributeError
  | TypeError
  | RuntimeError
  | AssertionError

definition ebind :: "error + 'a \<Rightarrow> ('a \<Rightarrow> error + 'b) \<Rightarrow> error + 'b" where
  "ebind m f = (case m of Inl e \<Rightarrow> Inl e | Inr x \<Rightarrow> f x)"

fun emap :: "('a \<Rightarrow> error + 'b) \<Rightarrow> 'a list \<Rightarrow> error + 'b list" where
  "emap f [] = Inr []"
| "emap f (x # xs) =
     ebind (f x) (\<lambda>y. ebind (emap f xs) (\<lambda>ys. Inr (y # ys)))"

text \<open>
  The values held by the dictionaries the model passes around: a video id, a number,
  a float tensor of one or two dimensions, an integer tensor of class indices.
\<close>

datatype pyval =
    PStr string
  | PNum real
  | PVec "real list"
  | PMat "real list list"
  | PLabels "nat list"

type_synonym pydict = "string \<rightharpoonup> pyval"

definition getitem :: "pydict \<Rightarrow> string \<Rightarrow> error + pyval" where
  "getitem d k = (case d k of None \<Rightarrow> Inl (KeyError k) | Some v \<Rightarrow> Inr v)"

text \<open>\<^verbatim>\<open>x.detach().cpu()\<close>: defined on tensors only.\<close>

fun detach_cpu :: "pyval \<Rightarrow> error + pyval" where
  "detach_cpu (PVec v) = Inr (PVec v)"
| "detach_cpu (PMat m) = Inr (PMat m)"
| "detach_cpu (PLabels l) = Inr (PLabels l)"
| "detach_cpu _ = Inl AttributeError"

fun as_num :: "pyval \<Rightarrow> error + real" where
  "as_num (PNum x) = Inr x"
| "as_num _ = Inl TypeError"

subsection \<open>Floats with special values\<close>

text \<open>
  A float is a real, an infinity or NaN. Arithmetic on finite values is exact; the
  special values follow IEEE 754 (signed zeros are not distinguished).
\<close>

datatype fval = Fin real | PInf | NInf | NaN

fun isnan :: "fval \<Rightarrow> bool" where
  "isnan NaN = True"
| "isnan _ = False"

text \<open>Comparisons: every comparison with NaN is false.\<close>

fun flt :: "fval \<Rightarrow> fval \<Rightarrow> bool" where
  "flt NaN _ = False"
| "flt _ NaN = False"
| "flt (Fin a) (Fin b) = (a < b)"
| "flt (Fin a) PInf = True"
| "flt (Fin a) NInf = False"
| "flt PInf _ = False"
| "flt NInf NInf = False"
| "flt NInf _ = True"

fun fle :: "fval \<Rightarrow> fval \<Rightarrow> bool" where
  "fle NaN _ = False"
| "fle _ NaN = False"
| "fle (Fin a) (Fin b) = (a \<le> b)"
| "fle (Fin a) PInf = True"
| "fle (Fin a) NInf = False"
| "fle PInf PInf = True"
| "fle PInf _ = False"
| "fle NInf _ = True"

fun fneg :: "fval \<Rightarrow> fval" where
  "fneg (Fin a) = Fin (- a)"
| "fneg PInf = NInf"
| "fneg NInf = PInf"
| "fneg NaN = NaN"

fun fadd :: "fval \<Rightarrow> fval \<Rightarrow> fval" where
  "fadd NaN _ = NaN"
| "fadd _ NaN = NaN"
| "fadd (Fin a) (Fin b) = Fin (a + b)"
| "fadd (Fin a) PInf = PInf"
| "fadd (Fin a) NInf = NInf"
| "fadd PInf NInf = NaN"
| "fadd PInf _ = PInf"
| "fadd NInf PInf = NaN"
| "fadd NInf _ = NInf"

definition fsub :: "fval \<Rightarrow> fval \<Rightarrow> fval" where
  "fsub a b = fadd a (fneg b)"

text \<open>The sign of a non-NaN value: \<open>-1\<close>, \<open>0\<close> or \<open>1\<close>.\<close>

fun fsgn :: "fval \<Rightarrow> real" where
  "fsgn (Fin a) = sgn a"
| "fsgn PInf = 1"
| "fsgn NInf = - 1"
| "fsgn NaN = 0"

definition inf_of_sign :: "real \<Rightarrow> fval" where
  "inf_of_sign s = (if s = 0 then NaN else if s > 0 then PInf else NInf)"

fun fmul :: "fval \<Rightarrow> fval \<Rightarrow> fval" where
  "fmul NaN _ = NaN"
| "fmul _ NaN = NaN"
| "fmul (Fin a) (Fin b) = Fin (a * b)"
| "fmul a b = inf_of_sign (fsgn a * fsgn b)"

fun fdiv :: "fval \<Rightarrow> fval \<Rightarrow> fval" where
  "fdiv NaN _ = NaN"
| "fdiv _ NaN = NaN"
| "fdiv (Fin a) (Fin b) = (if b = 0 then inf_of_sign (sgn a) else Fin (a / b))"
| "fdiv (Fin a) _ = Fin 0"
| "fdiv a (Fin b) = inf_of_sign (fsgn a * (if b < 0 then - 1 else 1))"
| "fdiv _ _ = NaN"

fun fexp :: "fval \<Rightarrow> fval" where
  "fexp (Fin a) = Fin (exp a)"
| "fexp PInf = PInf"
| "fexp NInf = Fin 0"
| "fexp NaN = NaN"

text \<open>\<^verbatim>\<open>torch.max\<close> of two values: NaN propagates.\<close>

definition fmax :: "fval \<Rightarrow> fval \<Rightarrow> fval" where
  "fmax a b = (if isnan a \<or> isnan b then NaN else if flt a b then b else a)"

definition fsum :: "fval list \<Rightarrow> fval" where
  "fsum xs = foldl fadd (Fin 0) xs"


subsection \<open>Postprocessing\<close>

datatype nms_method = Soft | Hard | NoNms

record test_cfg =
  test_nms_method :: nms_method
  test_iou_threshold :: real
  test_min_score :: real
  test_max_seg_num :: nat
  test_multiclass_nms :: bool
  test_nms_sigma :: real
  test_voting_thresh :: real

text \<open>
  \<^verbatim>\<open>batched_nms\<close> is imported from \<^verbatim>\<open>libs/utils\<close>; it is a parameter of the
  model: it receives the three tensors and the configuration and returns three tensors
  or raises.
\<close>

type_synonym nms_fun =
  "test_cfg \<Rightarrow> bool \<Rightarrow> pyval \<Rightarrow> pyval \<Rightarrow> pyval \<Rightarrow> error + (pyval \<times> pyval \<times> pyval)"

text \<open>
  \<^verbatim>\<open>segs = (segs * stride + 0.5 * nframes) / fps\<close>, for one element.
\<close>

definition grid_to_seconds :: "real \<Rightarrow> real \<Rightarrow> real \<Rightarrow> real \<Rightarrow> real" where
  "grid_to_seconds stride nframes fps g = (g * stride + 0.5 * nframes) / fps"

text \<open>
  \<^verbatim>\<open>segs[segs<=0.0] *= 0.0\<close> followed by
  \<^verbatim>\<open>segs[segs>=vlen] = segs[segs>=vlen] * 0.0 + vlen\<close>, for one element.
\<close>

definition truncate_boundary :: "real \<Rightarrow> real \<Rightarrow> real" where
  "truncate_boundary vlen x =
     (let y = (if x \<le> 0 then x * 0 else x)
      in if y \<ge> vlen then y * 0 + vlen else y)"

text \<open>\<^verbatim>\<open>segs.shape[0]\<close> of a tensor.\<close>

fun shape0 :: "pyval \<Rightarrow> error + nat" where
  "shape0 (PVec v) = Inr (length v)"
| "shape0 (PMat m) = Inr (length m)"
| "shape0 (PLabels l) = Inr (length l)"
| "shape0 _ = Inl AttributeError"

text \<open>An elementwise float operation on a tensor; an integer tensor is promoted.\<close>

fun tensor_map :: "(real \<Rightarrow> real) \<Rightarrow> pyval \<Rightarrow> error + pyval" where
  "tensor_map f (PVec v) = Inr (PVec (map f v))"
| "tensor_map f (PMat m) = Inr (PMat (map (map f) m))"
| "tensor_map f (PLabels l) = Inr (PVec (map (\<lambda>n. f (real n)) l))"
| "tensor_map f _ = Inl TypeError"

definition convert_segs :: "pyval \<Rightarrow> pyval \<Rightarrow> pyval \<Rightarrow> pyval \<Rightarrow> pyval \<Rightarrow> error + pyval" where
  "convert_segs segs stride nframes fps vlen =
     ebind (shape0 segs) (\<lambda>n.
       if n > 0 then
         ebind (as_num stride) (\<lambda>stride'.
         ebind (as_num nframes) (\<lambda>nframes'.
         ebind (as_num fps) (\<lambda>fps'.
         ebind (as_num vlen) (\<lambda>vlen'.
           tensor_map (\<lambda>g. truncate_boundary vlen' (grid_to_seconds stride' nframes' fps' g))
             segs))))
       else Inr segs)"

definition postprocess_video :: "nms_fun \<Rightarrow> test_cfg \<Rightarrow> pydict \<Rightarrow> error + pydict" where
  "postprocess_video batched_nms cfg results_per_vid =
     ebind (getitem results_per_vid ''video_id'') (\<lambda>vidx.
     ebind (getitem results_per_vid ''fps'') (\<lambda>fps.
     ebind (getitem results_per_vid ''duration'') (\<lambda>vlen.
     ebind (getitem results_per_vid ''feat_stride'') (\<lambda>stride.
     ebind (getitem results_per_vid ''feat_num_frames'') (\<lambda>nframes.
     ebind (ebind (getitem results_per_vid ''segments'') detach_cpu) (\<lambda>segs.
     ebind (ebind (getitem results_per_vid ''scores'') detach_cpu) (\<lambda>scores.
     ebind (ebind (getitem results_per_vid ''labels'') detach_cpu) (\<lambda>labels.
     ebind (if test_nms_method cfg \<noteq> NoNms
            then batched_nms cfg (test_nms_method cfg = Soft) segs scores labels
            else Inr (segs, scores, labels)) (\<lambda>(segs1, scores1, labels1).
     ebind (convert_segs segs1 stride nframes fps vlen) (\<lambda>segs2.
       Inr [''video_id'' \<mapsto> vidx, ''segments'' \<mapsto> segs2,
            ''scores'' \<mapsto> scores1, ''labels'' \<mapsto> labels1]))))))))))"

definition postprocessing :: "nms_fun \<Rightarrow> test_cfg \<Rightarrow> pydict list \<Rightarrow> error + pydict list" where
  "postprocessing batched_nms cfg results = emap (postprocess_video batched_nms cfg) results"


subsection \<open>Concrete inputs: postprocessing\<close>

definition nms_unused :: nms_fun where
  "nms_unused = (\<lambda>cfg soft segs scores labels. Inl RuntimeError)"

definition cfg_none :: test_cfg where
  "cfg_none = \<lparr>test_nms_method = NoNms, test_iou_threshold = 0.1, test_min_score = 0.001,
     test_max_seg_num = 200, test_multiclass_nms = True, test_nms_sigma = 0.5,
     test_voting_thresh = 0.7\<rparr>"

definition video_result :: "real \<Rightarrow> real list list \<Rightarrow> pydict" where
  "video_result vlen segs =
     [''segments'' \<mapsto> PMat segs, ''scores'' \<mapsto> PVec [0.9], ''labels'' \<mapsto> PLabels [0],
      ''video_id'' \<mapsto> PStr ''v1'', ''fps'' \<mapsto> PNum 25, ''duration'' \<mapsto> PNum vlen,
      ''feat_stride'' \<mapsto> PNum 4, ''feat_num_frames'' \<mapsto> PNum 16]"

definition clipped_result :: pydict where
  "clipped_result =
     [''segments'' \<mapsto> PMat [[0.64, 1.92]], ''scores'' \<mapsto> PVec [0.9], ''labels'' \<mapsto> PLabels [0],
      ''video_id'' \<mapsto> PStr ''v1'', ''fps'' \<mapsto> PNum 25, ''duration'' \<mapsto> PNum 100,
      ''feat_stride'' \<mapsto> PNum 4, ''feat_num_frames'' \<mapsto> PNum 16]"

definition with_meta :: "pydict \<Rightarrow> pydict \<Rightarrow> pydict" where
  "with_meta src r = r(''fps'' := src ''fps'', ''duration'' := src ''duration'',
      ''feat_stride'' := src ''feat_stride'', ''feat_num_frames'' := src ''feat_num_frames'')"

subsection \<open>Label assignment\<close>

text \<open>
  A row of \<^verbatim>\<open>concat_points\<close>: the time of the grid point, its regression range and
  its stride.
\<close>

record point =
  pt_t :: real
  pt_reg_min :: real
  pt_reg_max :: real
  pt_stride :: real

datatype center_sample = Radius | NoSample

record train_cfg =
  num_classes :: nat
  train_center_sample :: center_sample
  train_center_sample_radius :: real

text \<open>
  \<^verbatim>\<open>left\<close> and \<open>right\<close>: the distances of a point to the boundaries of a segment
  \<open>(start, end)\<close>; \<^verbatim>\<open>reg_targets\<close> stacks them.
\<close>

definition left :: "point \<Rightarrow> real \<times> real \<Rightarrow> real" where
  "left p seg = pt_t p - fst seg"

definition right :: "point \<Rightarrow> real \<times> real \<Rightarrow> real" where
  "right p seg = snd seg - pt_t p"

definition inside_gt_seg_mask :: "train_cfg \<Rightarrow> point \<Rightarrow> real \<times> real \<Rightarrow> bool" where
  "inside_gt_seg_mask cfg p seg =
     (if train_center_sample cfg = Radius then
        (let center_pts = 0.5 * (fst seg + snd seg);
             t_mins = center_pts - pt_stride p * train_center_sample_radius cfg;
             t_maxs = center_pts + pt_stride p * train_center_sample_radius cfg;
             cb_dist_left = pt_t p - max t_mins (fst seg);
             cb_dist_right = min t_maxs (snd seg) - pt_t p
         in min cb_dist_left cb_dist_right > 0)
      else min (left p seg) (right p seg) > 0)"

definition inside_regress_range :: "point \<Rightarrow> real \<times> real \<Rightarrow> bool" where
  "inside_regress_range p seg =
     (let max_regress_distance = max (left p seg) (right p seg)
      in max_regress_distance \<ge> pt_reg_min p \<and> max_regress_distance \<le> pt_reg_max p)"

text \<open>
  The row of \<^verbatim>\<open>lens\<close> of one point after the two \<^verbatim>\<open>masked_fill_\<close>: the
  duration of each segment, or infinity.
\<close>

definition masked_len :: "train_cfg \<Rightarrow> point \<Rightarrow> real \<times> real \<Rightarrow> fval" where
  "masked_len cfg p seg =
     (let l0 = Fin (snd seg - fst seg);
          l1 = (if \<not> inside_gt_seg_mask cfg p seg then PInf else l0);
          l2 = (if \<not> inside_regress_range p seg then PInf else l1)
      in l2)"

definition lens_row :: "train_cfg \<Rightarrow> point \<Rightarrow> (real \<times> real) list \<Rightarrow> fval list" where
  "lens_row cfg p gt_segment = map (masked_len cfg p) gt_segment"

text \<open>
  \<^verbatim>\<open>torch.min(dim)\<close> of a non-empty row \<open>x # xs\<close>: the minimum and the index of
  its first occurrence.
\<close>

fun min_from :: "fval \<Rightarrow> fval list \<Rightarrow> fval \<times> nat" where
  "min_from x [] = (x, 0)"
| "min_from x (y # ys) =
     (let (m, i) = min_from y ys in if flt m x then (m, Suc i) else (x, 0))"

fun torch_min :: "fval list \<Rightarrow> fval \<times> nat" where
  "torch_min [] = (PInf, 0)"
| "torch_min (x # xs) = min_from x xs"

definition min_len_mask :: "fval list \<Rightarrow> real list" where
  "min_len_mask lens =
     (let min_len = fst (torch_min lens)
      in map (\<lambda>l. if fle l (fadd min_len (Fin (1 / 1000))) \<and> flt l PInf then 1 else 0) lens)"

text \<open>\<^verbatim>\<open>F.one_hot\<close> of one label, as floats.\<close>

definition one_hot :: "nat \<Rightarrow> nat \<Rightarrow> real list" where
  "one_hot n l = map (\<lambda>c. if c = l then 1 else 0) [0..<n]"

text \<open>A row vector times a matrix with \<open>n\<close> columns.\<close>

definition vec_matmul :: "real list \<Rightarrow> real list list \<Rightarrow> nat \<Rightarrow> real list" where
  "vec_matmul v M n = map (\<lambda>c. sum_list (map2 (\<lambda>a row. a * row ! c) v M)) [0..<n]"

definition clamp01 :: "real \<Rightarrow> real" where
  "clamp01 x = min 1 (max 0 x)"

definition cls_row :: "train_cfg \<Rightarrow> point \<Rightarrow> (real \<times> real) list \<Rightarrow> nat list \<Rightarrow> nat \<Rightarrow> real list" where
  "cls_row cfg p gt_segment gt_label n =
     map clamp01 (vec_matmul (min_len_mask (lens_row cfg p gt_segment)) (map (one_hot n) gt_label) n)"

definition min_len_inds :: "train_cfg \<Rightarrow> point \<Rightarrow> (real \<times> real) list \<Rightarrow> nat" where
  "min_len_inds cfg p gt_segment = snd (torch_min (lens_row cfg p gt_segment))"

text \<open>
  \<^verbatim>\<open>reg_targets[range(num_pts), min_len_inds]\<close> divided by the stride, for one point.
\<close>

definition reg_row :: "train_cfg \<Rightarrow> point \<Rightarrow> (real \<times> real) list \<Rightarrow> real \<times> real" where
  "reg_row cfg p gt_segment =
     (let seg = gt_segment ! min_len_inds cfg p gt_segment
      in (left p seg / pt_stride p, right p seg / pt_stride p))"

text \<open>
  \<^verbatim>\<open>label_points_single_video\<close>: the targets \<open>(cls_targets, reg_targets,
  clip_targets)\<close> of every point. \<^verbatim>\<open>F.one_hot\<close> raises on a label that is not below
  the number of classes, the matrix product on a label tensor whose length is not the
  number of segments.
\<close>

definition label_points_single_video ::
  "train_cfg \<Rightarrow> point list \<Rightarrow> (real \<times> real) list \<Rightarrow> nat list
     \<Rightarrow> error + (real list list \<times> (real \<times> real) list \<times> real list list)" where
  "label_points_single_video cfg concat_points gt_segment gt_label =
     (if length gt_segment = 0 then
        Inr (map (\<lambda>p. replicate (num_classes cfg) 0) concat_points,
             map (\<lambda>p. (0, 0)) concat_points,
             map (\<lambda>p. replicate 200 0) concat_points)
      else if \<not> list_all (\<lambda>l. l < num_classes cfg) gt_label then Inl RuntimeError
      else if \<not> list_all (\<lambda>l. l < 200) gt_label then Inl RuntimeError
      else if length gt_label \<noteq> length gt_segment then Inl RuntimeError
      else
        Inr (map (\<lambda>p. cls_row cfg p gt_segment gt_label (num_classes cfg)) concat_points,
             map (\<lambda>p. reg_row cfg p gt_segment) concat_points,
             map (\<lambda>p. cls_row cfg p gt_segment gt_label 200) concat_points))"

text \<open>
  A point is a candidate for a segment when the segment passes both masks, that is,
  when its entry of \<^verbatim>\<open>lens\<close> is not filled with infinity.
\<close>

definition candidate :: "train_cfg \<Rightarrow> point \<Rightarrow> real \<times> real \<Rightarrow> bool" where
  "candidate cfg p seg = (inside_gt_seg_mask cfg p seg \<and> inside_regress_range p seg)"

definition duration :: "real \<times> real \<Rightarrow> real" where
  "duration seg = snd seg - fst seg"


subsection \<open>Concrete inputs: label assignment\<close>

definition cfgA :: train_cfg where
  "cfgA = \<lparr>num_classes = 2, train_center_sample = NoSample, train_center_sample_radius = 1.5\<rparr>"

definition ptA :: point where
  "ptA = \<lparr>pt_t = 2, pt_reg_min = 0, pt_reg_max = 4, pt_stride = 1\<rparr>"

definition ptB :: point where
  "ptB = \<lparr>pt_t = 5, pt_reg_min = 0, pt_reg_max = 4, pt_stride = 1\<rparr>"

definition segsA :: "(real \<times> real) list" where
  "segsA = [(1, 3), (1, 3.0005)]"

subsection \<open>Offset decoding\<close>

text \<open>
  \<^verbatim>\<open>torch.softmax\<close> along one row: the exponentials of the entries minus the row
  maximum, divided by their sum. A row that holds NaN or \<open>+inf\<close>, or only \<open>-inf\<close>,
  becomes NaN everywhere.
\<close>

definition softmax :: "fval list \<Rightarrow> fval list" where
  "softmax xs =
     (case xs of
        [] \<Rightarrow> []
      | x # xs' \<Rightarrow>
          (let m = foldl fmax x xs';
               es = map (\<lambda>v. fexp (fsub v m)) xs;
               s = fsum es
           in map (\<lambda>e. fdiv e s) es))"

text \<open>
  Shapes are strict in this model: an elementwise operation on two rows of different
  lengths is a \<^verbatim>\<open>RuntimeError\<close> (broadcasting of a row of length one is not
  modelled; the callers pass windows of \<^verbatim>\<open>num_bins + 1\<close> entries and offsets of
  \<^verbatim>\<open>2 * (num_bins + 1)\<close> channels).
\<close>

definition zip_rows :: "('a \<Rightarrow> 'b \<Rightarrow> 'c) \<Rightarrow> 'a list \<Rightarrow> 'b list \<Rightarrow> error + 'c list" where
  "zip_rows f xs ys = (if length xs = length ys then Inr (map2 f xs ys) else Inl RuntimeError)"

text \<open>
  \<^verbatim>\<open>view(..., 2, -1)\<close> of a row of channels: the left half and the right half.
  The view raises on a tensor without elements.
\<close>

definition view_2 :: "fval list \<Rightarrow> error + (fval list \<times> fval list)" where
  "view_2 row =
     (if even (length row) \<and> row \<noteq> []
      then Inr (take (length row div 2) row, drop (length row div 2) row)
      else Inl RuntimeError)"

text \<open>
  The statements of \<^verbatim>\<open>decode_offset\<close> after the softmax, for the two distributions
  of one location and class: the bin indices, the two \<^verbatim>\<open>masked_fill\<close>, both with
  the mask \<^verbatim>\<open>torch.isnan(pred_right_dis)\<close>, and the two products with the indices.
\<close>

definition dot :: "fval list \<Rightarrow> fval list \<Rightarrow> fval" where
  "dot xs ys = fsum (map2 fmul xs ys)"

definition expectation :: "fval list \<Rightarrow> fval list \<Rightarrow> error + (fval \<times> fval)" where
  "expectation pred_left_dis pred_right_dis =
     (let max_range_num = length pred_left_dis;
          left_range_idx = map (\<lambda>k. Fin (real k)) (rev [0..<max_range_num]);
          right_range_idx = map (\<lambda>k. Fin (real k)) [0..<max_range_num]
      in ebind (zip_rows (\<lambda>l r. if isnan r then Fin 0 else l) pred_left_dis pred_right_dis)
           (\<lambda>pred_left_dis'.
         let pred_right_dis' = map (\<lambda>r. if isnan r then Fin 0 else r) pred_right_dis
         in if length pred_right_dis' \<noteq> max_range_num then Inl RuntimeError
            else Inr (dot pred_left_dis' left_range_idx, dot pred_right_dis' right_range_idx)))"

text \<open>
  One location and class: the window of the start head plus the left half of the
  regression output, the window of the end head plus the right half, each through the
  softmax.
\<close>

definition decode_row ::
  "fval list \<Rightarrow> fval list \<Rightarrow> fval list \<times> fval list \<Rightarrow> error + (fval \<times> fval)" where
  "decode_row start_nb end_nb offs =
     ebind (zip_rows fadd start_nb (fst offs)) (\<lambda>l.
     ebind (zip_rows fadd end_nb (snd offs)) (\<lambda>r.
       expectation (softmax l) (softmax r)))"

text \<open>
  \<^verbatim>\<open>decode_offset\<close> with the Trident head; \<^verbatim>\<open>use_trident_head\<close> is true for
  every instance (\<^verbatim>\<open>__init__\<close> binds the local to \<^verbatim>\<open>True\<close> and sets the attribute
  in that branch only).

  Evaluation mode: \<^verbatim>\<open>out_offsets\<close> has shape \<open>[T, 2 * (num_bins + 1)]\<close>, the
  neighbour windows \<open>[C, T, num_bins + 1]\<close>; the result has shape \<open>[C, T, 2]\<close>.
\<close>

definition decode_offset_eval ::
  "fval list list \<Rightarrow> fval list list list \<Rightarrow> fval list list list
     \<Rightarrow> error + (fval \<times> fval) list list" where
  "decode_offset_eval out_offsets pred_start_neighbours pred_end_neighbours =
     ebind (emap view_2 out_offsets) (\<lambda>offs.
       if out_offsets = [] then Inl RuntimeError
       else
         ebind (zip_rows (\<lambda>s e. (s, e)) pred_start_neighbours pred_end_neighbours) (\<lambda>cs.
           emap (\<lambda>(s, e).
             ebind (zip_rows (\<lambda>a b. (a, b)) s e) (\<lambda>ts.
             ebind (zip_rows (\<lambda>(a, b) off. (a, b, off)) ts offs) (\<lambda>rows.
               emap (\<lambda>(a, b, off). decode_row a b off) rows))) cs))"

text \<open>\<^verbatim>\<open>torch.cat(xs, dim=1)\<close> of tensors of shape \<open>[B, T_i, ...]\<close>.\<close>

definition cat1 :: "'a list list list \<Rightarrow> error + 'a list list" where
  "cat1 xs =
     (case xs of
        [] \<Rightarrow> Inl RuntimeError
      | x # _ \<Rightarrow>
          if list_all (\<lambda>y. length y = length x) xs
          then Inr (map (\<lambda>b. concat (map (\<lambda>y. y ! b) xs)) [0..<length x])
          else Inl RuntimeError)"

text \<open>
  Training mode: per level, \<^verbatim>\<open>out_offsets\<close> has shape
  \<open>[B, T_i, 2 * (num_bins + 1)]\<close> and the windows \<open>[B, T_i, C, num_bins + 1]\<close>; the levels
  are concatenated and the result has shape \<open>[B, sum T_i, C, 2]\<close>.
\<close>

definition decode_offset_training ::
  "fval list list list list \<Rightarrow> fval list list list list list \<Rightarrow> fval list list list list list
     \<Rightarrow> error + (fval \<times> fval) list list list" where
  "decode_offset_training out_offsets pred_start_neighbours pred_end_neighbours =
     ebind (cat1 out_offsets) (\<lambda>offs0.
     ebind (if concat offs0 = [] then Inl RuntimeError else emap (emap view_2) offs0) (\<lambda>offs.
     ebind (cat1 pred_start_neighbours) (\<lambda>starts.
     ebind (cat1 pred_end_neighbours) (\<lambda>ends.
     ebind (zip_rows (\<lambda>s e. (s, e)) starts ends) (\<lambda>bs.
     ebind (zip_rows (\<lambda>(s, e) off. (s, e, off)) bs offs) (\<lambda>bs'.
       emap (\<lambda>(s, e, off).
         ebind (zip_rows (\<lambda>a b. (a, b)) s e) (\<lambda>ts.
         ebind (zip_rows (\<lambda>(a, b) o1. (a, b, o1)) ts off) (\<lambda>ts'.
           emap (\<lambda>(a, b, o1).
             ebind (zip_rows (\<lambda>x y. (x, y)) a b) (\<lambda>cs.
               emap (\<lambda>(x, y). decode_row x y o1) cs)) ts'))) bs'))))))"


subsection \<open>Concrete inputs: offset decoding\<close>

definition zeros :: "nat \<Rightarrow> fval list" where
  "zeros n = replicate n (Fin 0)"

definition start_overflow :: "fval list" where
  "start_overflow = zeros 16 @ [PInf]"

definition end_overflow :: "fval list" where
  "end_overflow = PInf # zeros 16"

subsection \<open>Inference: the combined score of one pyramid level\<close>

text \<open>
  The first statements of the loop over the pyramid levels in
  \<^verbatim>\<open>inference_single_video\<close>, for one level: \<^verbatim>\<open>cls_i\<close> of shape \<open>[T, C]\<close>,
  \<^verbatim>\<open>clip_i\<close> of shape \<open>[T, S]\<close> and \<^verbatim>\<open>mask_i\<close> of shape \<open>[T]\<close>. The logits are
  finite numbers.
\<close>

definition sigmoid :: "real \<Rightarrow> real" where
  "sigmoid x = 1 / (1 + exp (- x))"

text \<open>\<^verbatim>\<open>torch.max(clip_i, dim=1, keepdim=True)\<close>: it raises on a row without entries.\<close>

definition row_max :: "real list \<Rightarrow> error + real" where
  "row_max row = (case row of [] \<Rightarrow> Inl RuntimeError | x # xs \<Rightarrow> Inr (foldl max x xs))"

definition inference_alpha :: real where
  "inference_alpha = 0.7"

definition inference_beta :: real where
  "inference_beta = 0.3"

definition combined_prob :: "real list list \<Rightarrow> real list list \<Rightarrow> error + real list list" where
  "combined_prob cls_i clip_i =
     ebind (emap row_max clip_i) (\<lambda>clip_j.
       zip_rows (\<lambda>cls_row clip_max.
           map (\<lambda>x. inference_alpha * sigmoid x + inference_beta * sigmoid clip_max) cls_row)
         cls_i clip_j)"

text \<open>\<^verbatim>\<open>(combined_prob * mask_i.unsqueeze(-1)).flatten()\<close>\<close>

definition pred_prob :: "real list list \<Rightarrow> real list list \<Rightarrow> bool list \<Rightarrow> error + real list" where
  "pred_prob cls_i clip_i mask_i =
     ebind (combined_prob cls_i clip_i) (\<lambda>cp.
     ebind (zip_rows (\<lambda>row m. map (\<lambda>x. x * (if m then 1 else 0)) row) cp mask_i) (\<lambda>masked.
       Inr (concat masked)))"


subsection \<open>The forward pass: feature fusion written into the input records\<close>

text \<open>
  \<^verbatim>\<open>nn.Linear\<close>: the weight of shape \<open>[out_features, in_features]\<close> and the bias; it
  raises on an input row whose length is not \<^verbatim>\<open>in_features\<close>.
\<close>

record linear =
  in_features :: nat
  weight :: "real list list"
  bias :: "real list"

definition linear_apply :: "linear \<Rightarrow> real list \<Rightarrow> error + real list" where
  "linear_apply L x =
     (if length x \<noteq> in_features L then Inl RuntimeError
      else Inr (map2 (\<lambda>w b. sum_list (map2 (*) w x) + b) (weight L) (bias L)))"

text \<open>
  \<^verbatim>\<open>x.transpose(0, 1)\<close> of a tensor with \<open>m\<close> columns, given as its list of rows.
\<close>

definition transpose01 :: "nat \<Rightarrow> real list list \<Rightarrow> real list list" where
  "transpose01 m M = map (\<lambda>j. map (\<lambda>row. row ! j) M) [0..<m]"

definition ncols :: "real list list \<Rightarrow> nat" where
  "ncols M = (case M of [] \<Rightarrow> 0 | row # _ \<Rightarrow> length row)"

fun as_matrix :: "pyval \<Rightarrow> error + real list list" where
  "as_matrix (PMat m) = Inr m"
| "as_matrix (PVec v) = Inl RuntimeError"
| "as_matrix (PLabels l) = Inl RuntimeError"
| "as_matrix _ = Inl AttributeError"

definition relu :: "real \<Rightarrow> real" where
  "relu x = max 0 x"

text \<open>\<^verbatim>\<open>F.relu(fc(x) + x)\<close> on a tensor of shape \<open>[T, in_features]\<close>.\<close>

definition residual_map :: "linear \<Rightarrow> real list list \<Rightarrow> error + real list list" where
  "residual_map fc x =
     emap (\<lambda>row. ebind (linear_apply fc row) (\<lambda>y.
                   ebind (zip_rows (+) y row) (\<lambda>s. Inr (map relu s)))) x"

record module =
  fc_feats :: linear
  fc_clip_feats :: linear

text \<open>
  The body of the first loop of \<^verbatim>\<open>forward\<close> up to the assignment: the tensor
  \<^verbatim>\<open>concatenated_feats\<close> of one video.
\<close>

definition concatenated_feats :: "module \<Rightarrow> pydict \<Rightarrow> error + real list list" where
  "concatenated_feats self video =
     ebind (ebind (getitem video ''feats'') as_matrix) (\<lambda>feats0.
     ebind (ebind (getitem video ''clip_feats'') as_matrix) (\<lambda>clip_feats0.
       let feats = transpose01 (ncols feats0) feats0;
           clip_feats = transpose01 (ncols clip_feats0) clip_feats0
       in ebind (residual_map (fc_feats self) feats) (\<lambda>feats_mapped.
          ebind (residual_map (fc_clip_feats self) clip_feats) (\<lambda>clip_feats_mapped.
            let feats_mapped' = transpose01 (length (bias (fc_feats self))) feats_mapped;
                clip_feats_mapped' =
                  transpose01 (length (bias (fc_clip_feats self))) clip_feats_mapped
            in if length feats_mapped \<noteq> length clip_feats_mapped then Inl RuntimeError
               else Inr (feats_mapped' @ clip_feats_mapped')))))"

text \<open>
  The first loop of \<^verbatim>\<open>forward\<close>. The dictionaries of \<^verbatim>\<open>video_list\<close> are the
  caller's objects and the loop assigns into them, so the model returns the list as the
  loop leaves it, together with the exception that stopped it, if any: the records before
  the failing one keep their new key.
\<close>

fun forward_concat :: "module \<Rightarrow> pydict list \<Rightarrow> error option \<times> pydict list" where
  "forward_concat self [] = (None, [])"
| "forward_concat self (video # rest) =
     (case concatenated_feats self video of
        Inl e \<Rightarrow> (Some e, video # rest)
      | Inr c \<Rightarrow>
          (let (r, rest') = forward_concat self rest
           in (r, video(''concatenated_feats'' \<mapsto> PMat c) # rest')))"


subsection \<open>Concrete inputs: forward\<close>

definition small_module :: module where
  "small_module =
     \<lparr>fc_feats = \<lparr>in_features = 2, weight = [[1, 0], [0, - 2]], bias = [0, 1]\<rparr>,
      fc_clip_feats = \<lparr>in_features = 1, weight = [[2]], bias = [- 7]\<rparr>\<rparr>"

definition small_video :: pydict where
  "small_video =
     [''video_id'' \<mapsto> PStr ''v1'',
      ''feats'' \<mapsto> PMat [[1, 2, 3], [1, - 1, 0]],
      ''clip_feats'' \<mapsto> PMat [[1, 2, 3]]]"


subsection \<open>Losses\<close>

text \<open>
  The loss primitives are imported from \<^verbatim>\<open>libs/modeling/losses.py\<close>; they are
  parameters of the model, each given per element (per row of two offsets):
  \<^verbatim>\<open>reduction='none'\<close> returns these values and \<^verbatim>\<open>reduction='sum'\<close> their sum.
\<close>

record loss_fns =
  sigmoid_focal_loss :: "fval \<Rightarrow> real \<Rightarrow> fval"
  ctr_giou_loss_1d :: "fval \<times> fval \<Rightarrow> real \<times> real \<Rightarrow> fval"
  ctr_diou_loss_1d :: "fval \<times> fval \<Rightarrow> real \<times> real \<Rightarrow> fval"

text \<open>
  The attributes of the module that \<^verbatim>\<open>losses\<close> reads. \<^verbatim>\<open>__init__\<close> sets
  \<^verbatim>\<open>num_bins\<close> to 16, \<^verbatim>\<open>loss_normalizer_momentum\<close> to 0.9 and
  \<^verbatim>\<open>iou_weight_power\<close> to 1; with that power
  \<^verbatim>\<open>(1 - iou_rate) ** self.iou_weight_power\<close> is \<open>1 - iou_rate\<close>. The attribute
  \<^verbatim>\<open>loss_normalizer\<close> is updated by every call: it is an argument and a result.
\<close>

record loss_cfg = train_cfg +
  num_bins :: nat
  train_label_smoothing :: real
  train_loss_weight :: real
  loss_normalizer_momentum :: real

text \<open>
  The windows built with \<^verbatim>\<open>F.pad\<close> and \<^verbatim>\<open>as_strided\<close>: entry \<open>k\<close> of the window
  of time \<open>t\<close> is entry \<open>t + k\<close> of the padded row of logits.
\<close>

definition start_windows :: "nat \<Rightarrow> fval list \<Rightarrow> fval list list" where
  "start_windows nb row =
     (let x = replicate nb (Fin 0) @ row
      in map (\<lambda>t. map (\<lambda>k. x ! (t + k)) [0..<nb + 1]) [0..<length row])"

definition end_windows :: "nat \<Rightarrow> fval list \<Rightarrow> fval list list" where
  "end_windows nb row =
     (let x = row @ replicate nb (Fin 0)
      in map (\<lambda>t. map (\<lambda>k. x ! (t + k)) [0..<nb + 1]) [0..<length row])"

text \<open>
  \<^verbatim>\<open>x.permute(0, 2, 1, 3)\<close> of the windows of one level: from \<open>[B, C, T, n]\<close> to
  \<open>[B, T, C, n]\<close>.
\<close>

definition permute_ct :: "'a list list list \<Rightarrow> 'a list list list" where
  "permute_ct x =
     (case x of [] \<Rightarrow> [] | r # _ \<Rightarrow> map (\<lambda>t. map (\<lambda>row. row ! t) x) [0..<length r])"

text \<open>
  The loop over the levels of \<^verbatim>\<open>out_start\<close>. The windows of \<^verbatim>\<open>out_end[i]\<close> are
  cut with the sizes and strides of \<^verbatim>\<open>out_start[i]\<close>; the model requires the two
  tensors of a level to have one shape.
\<close>

definition same_shape3 :: "'a list list list \<Rightarrow> 'a list list list \<Rightarrow> bool" where
  "same_shape3 x y = (map (map length) x = map (map length) y)"

fun neighbour_logits ::
  "nat \<Rightarrow> fval list list list list \<Rightarrow> fval list list list list
     \<Rightarrow> error + (fval list list list list list \<times> fval list list list list list)" where
  "neighbour_logits nb [] out_end = Inr ([], [])"
| "neighbour_logits nb (s # out_start) [] = Inl RuntimeError"
| "neighbour_logits nb (s # out_start) (e # out_end) =
     (if \<not> same_shape3 s e then Inl RuntimeError
      else ebind (neighbour_logits nb out_start out_end) (\<lambda>(ss, es).
        Inr (map (\<lambda>x. permute_ct (map (start_windows nb) x)) s # ss,
             map (\<lambda>x. permute_ct (map (end_windows nb) x)) e # es)))"

text \<open>An elementwise operation on two tensors of shape \<open>[N, M]\<close>.\<close>

definition zip_rows2 :: "('a \<Rightarrow> 'b \<Rightarrow> 'c) \<Rightarrow> 'a list list \<Rightarrow> 'b list list \<Rightarrow> error + 'c list list" where
  "zip_rows2 f xss yss =
     ebind (zip_rows (\<lambda>xs ys. (xs, ys)) xss yss) (emap (\<lambda>(xs, ys). zip_rows f xs ys))"

text \<open>
  \<^verbatim>\<open>torch.stack\<close> of the per-video targets: they must have one length.
\<close>

definition stack :: "'a list list \<Rightarrow> error + 'a list list" where
  "stack xs =
     (case xs of
        [] \<Rightarrow> Inl RuntimeError
      | x # _ \<Rightarrow> if list_all (\<lambda>y. length y = length x) xs then Inr xs else Inl RuntimeError)"

text \<open>\<^verbatim>\<open>x[mask]\<close> for a Boolean mask over the first two dimensions of \<open>x\<close>.\<close>

definition select2 :: "bool list list \<Rightarrow> 'a list list \<Rightarrow> error + 'a list" where
  "select2 msk x =
     ebind (zip_rows2 (\<lambda>m v. (m, v)) msk x) (\<lambda>mx.
       Inr (map snd (filter fst (concat mx))))"

text \<open>
  \<^verbatim>\<open>pos_mask = torch.logical_and((gt_cls.sum(-1) > 0), valid_mask)\<close>
\<close>

definition pos_mask :: "real list list list \<Rightarrow> bool list list \<Rightarrow> error + bool list list" where
  "pos_mask gt_cls valid_mask = zip_rows2 (\<lambda>g v. sum_list g > 0 \<and> v) gt_cls valid_mask"

text \<open>\<^verbatim>\<open>pos_mask.sum().item()\<close>\<close>

definition count_true :: "bool list list \<Rightarrow> nat" where
  "count_true m = length (filter (\<lambda>b. b) (concat m))"

text \<open>
  \<^verbatim>\<open>pred_offsets = decoded_offsets[pos_mask][gt_cls[pos_mask].bool()]\<close> and
  \<^verbatim>\<open>gt_offsets = torch.stack(gt_offsets)[pos_mask][vid]\<close> with
  \<^verbatim>\<open>vid = torch.where(gt_cls[pos_mask])[0]\<close>: one row for every positive location
  and every class with a non-zero target there.
\<close>

definition positive_offsets ::
  "(fval \<times> fval) list list list \<Rightarrow> bool list list \<Rightarrow> real list list list
     \<Rightarrow> (real \<times> real) list list
     \<Rightarrow> error + ((fval \<times> fval) list \<times> (real \<times> real) list)" where
  "positive_offsets decoded_offsets pm gt_cls gt_offsets =
     ebind (select2 pm decoded_offsets) (\<lambda>decoded_pos.
     ebind (select2 pm gt_cls) (\<lambda>gt_cls_pos.
     ebind (select2 (map (map (\<lambda>x. x \<noteq> 0)) gt_cls_pos) decoded_pos) (\<lambda>pred_offsets.
     ebind (stack gt_offsets) (\<lambda>gt_offsets_st.
     ebind (select2 pm gt_offsets_st) (\<lambda>gt_offsets_pos.
       Inr (pred_offsets,
            concat (map2 (\<lambda>g off. replicate (length (filter (\<lambda>x. x \<noteq> 0) g)) off)
                      gt_cls_pos gt_offsets_pos)))))))"

text \<open>The update of the loss normalizer.\<close>

definition update_loss_normalizer :: "real \<Rightarrow> real \<Rightarrow> nat \<Rightarrow> real" where
  "update_loss_normalizer momentum loss_normalizer num_pos =
     momentum * loss_normalizer + (1 - momentum) * real (max num_pos 1)"

text \<open>Label smoothing of a tensor of targets with \<open>n\<close> classes.\<close>

definition smooth :: "real \<Rightarrow> nat \<Rightarrow> real list list \<Rightarrow> real list list" where
  "smooth ls n target = map (map (\<lambda>x. x * (1 - ls) + ls / (real n + 1))) target"

text \<open>
  \<^verbatim>\<open>cls_loss[rated_mask] *= (1 - iou_rate) ** self.iou_weight_power\<close> on the
  flattened loss: the rated elements, in order, take the factors in order. The model
  requires as many factors as rated elements (the source also accepts a single factor,
  which it broadcasts).
\<close>

fun scale_rated :: "fval list \<Rightarrow> bool list \<Rightarrow> fval list \<Rightarrow> fval list" where
  "scale_rated (x # xs) (True # ms) (r # rs) = fmul x (fsub (Fin 1) r) # scale_rated xs ms rs"
| "scale_rated (x # xs) (m # ms) rs = x # scale_rated xs ms rs"
| "scale_rated xs ms rs = xs"

definition couple_iou :: "fval list list \<Rightarrow> bool list list \<Rightarrow> fval list \<Rightarrow> error + fval list" where
  "couple_iou cls_loss rated_mask iou_rate =
     (if count_true rated_mask \<noteq> length iou_rate then Inl RuntimeError
      else Inr (scale_rated (concat cls_loss) (concat rated_mask) iou_rate))"

text \<open>\<^verbatim>\<open>max(a, b)\<close> of Python on two floats.\<close>

definition pymax :: "fval \<Rightarrow> fval \<Rightarrow> fval" where
  "pymax a b = (if flt a b then b else a)"

definition reg_loss_of ::
  "loss_fns \<Rightarrow> nat \<Rightarrow> real \<Rightarrow> (fval \<times> fval) list \<Rightarrow> (real \<times> real) list \<Rightarrow> error + fval" where
  "reg_loss_of fns num_pos loss_normalizer pred_offsets gt_offsets =
     (if num_pos = 0 then
        Inr (fmul (Fin 0) (fsum (concat (map (\<lambda>(l, r). [l, r]) pred_offsets))))
      else
        ebind (zip_rows (ctr_diou_loss_1d fns) pred_offsets gt_offsets) (\<lambda>ls.
          Inr (fdiv (fsum ls) (Fin loss_normalizer))))"

definition loss_weight_of :: "real \<Rightarrow> fval \<Rightarrow> fval \<Rightarrow> fval" where
  "loss_weight_of w cls reg =
     (if w > 0 then Fin w else fdiv cls (pymax reg (Fin 0.01)))"

definition final_loss_of :: "fval \<Rightarrow> fval \<Rightarrow> fval \<Rightarrow> fval \<Rightarrow> fval" where
  "final_loss_of cls clip reg loss_weight =
     (let alpha = 0.3; beta = 0.4
      in fadd (fadd (fmul (Fin alpha) cls) (fmul clip (Fin beta)))
              (fmul (fmul reg loss_weight) (Fin (1 - alpha - beta))))"

record loss_out =
  cls_loss :: fval
  reg_loss :: fval
  clip_loss :: fval
  final_loss :: fval

text \<open>
  \<^verbatim>\<open>losses\<close>: the four losses and the updated loss normalizer (when the call
  raises, the model does not return the normalizer). Per level,
  \<^verbatim>\<open>fpn_masks\<close> has shape \<open>[B, T_i]\<close>, the logits \<open>[B, T_i, C]\<close> and \<open>[B, T_i, 200]\<close>,
  \<^verbatim>\<open>out_offsets\<close> \<open>[B, T_i, 2 * (num_bins + 1)]\<close>, \<^verbatim>\<open>out_start\<close> and
  \<^verbatim>\<open>out_end\<close> \<open>[B, C, T_i]\<close>; per video, the targets have shapes \<open>[sum T_i, C]\<close>,
  \<open>[sum T_i, 200]\<close> and \<open>[sum T_i, 2]\<close>.
\<close>

definition losses ::
  "loss_fns \<Rightarrow> 'a loss_cfg_scheme \<Rightarrow> real
     \<Rightarrow> real list list list \<Rightarrow> fval list list list list
     \<Rightarrow> bool list list list
     \<Rightarrow> fval list list list list
     \<Rightarrow> fval list list list list
     \<Rightarrow> real list list list \<Rightarrow> (real \<times> real) list list
     \<Rightarrow> fval list list list list \<Rightarrow> fval list list list list
     \<Rightarrow> error + (loss_out \<times> real)" where
  "losses fns self loss_normalizer gt_cls2_labels clip_cls_logits fpn_masks out_cls_logits
     out_offsets gt_cls_labels gt_offsets out_start out_end =
     ebind (cat1 fpn_masks) (\<lambda>valid_mask.
     ebind (neighbour_logits (num_bins self) out_start out_end)
       (\<lambda>(out_start_logits, out_end_logits).
     ebind (stack gt_cls_labels) (\<lambda>gt_cls.
     ebind (stack gt_cls2_labels) (\<lambda>clip_cls.
     ebind (pos_mask gt_cls valid_mask) (\<lambda>pm.
     ebind (decode_offset_training out_offsets out_start_logits out_end_logits)
       (\<lambda>decoded_offsets.
     ebind (positive_offsets decoded_offsets pm gt_cls gt_offsets)
       (\<lambda>(pred_offsets, gt_offsets').
       let num_pos = count_true pm;
           loss_normalizer' =
             update_loss_normalizer (loss_normalizer_momentum self) loss_normalizer num_pos
       in
     ebind (select2 valid_mask gt_cls) (\<lambda>gt_target0.
     ebind (select2 valid_mask clip_cls) (\<lambda>clip_target0.
       let clip_target = smooth (train_label_smoothing self) 200 clip_target0;
           gt_target = smooth (train_label_smoothing self) (num_classes self) gt_target0
       in
     ebind (ebind (cat1 out_cls_logits) (select2 valid_mask)) (\<lambda>cls_logits.
     ebind (zip_rows2 (sigmoid_focal_loss fns) cls_logits gt_target) (\<lambda>cls_loss0.
     ebind (zip_rows (ctr_giou_loss_1d fns) pred_offsets gt_offsets') (\<lambda>iou_rate.
       let rated_mask =
             map (map (\<lambda>x. x > train_label_smoothing self / (real (num_classes self) + 1)))
               gt_target
       in
     ebind (couple_iou cls_loss0 rated_mask iou_rate) (\<lambda>cls_loss1.
       let cls_loss = fdiv (fsum cls_loss1) (Fin loss_normalizer')
       in
     ebind (ebind (cat1 clip_cls_logits) (select2 valid_mask)) (\<lambda>clip_logits.
     ebind (zip_rows2 (sigmoid_focal_loss fns) clip_logits clip_target) (\<lambda>clip_loss0.
       let clip_loss = fdiv (fsum (concat clip_loss0)) (Fin loss_normalizer')
       in
     ebind (reg_loss_of fns num_pos loss_normalizer' pred_offsets gt_offsets') (\<lambda>reg_loss.
       let loss_weight = loss_weight_of (train_loss_weight self) cls_loss reg_loss;
           final_loss = final_loss_of cls_loss clip_loss reg_loss loss_weight
       in Inr (\<lparr>cls_loss = cls_loss, reg_loss = reg_loss, clip_loss = clip_loss,
                 final_loss = final_loss\<rparr>, loss_normalizer')))))))))))))))))"

text \<open>
  The weight and the final loss as claim C7 words them: the regression weight is the
  ratio of the classification loss to the regression loss when the configured weight is
  not positive.
\<close>

definition loss_weight_claimed :: "real \<Rightarrow> fval \<Rightarrow> fval \<Rightarrow> fval" where
  "loss_weight_claimed w cls reg = (if w > 0 then Fin w else fdiv cls reg)"

definition final_loss_claimed :: "real \<Rightarrow> fval \<Rightarrow> fval \<Rightarrow> fval \<Rightarrow> fval" where
  "final_loss_claimed w cls clip reg =
     fadd (fadd (fmul (Fin 0.3) cls) (fmul (Fin 0.4) clip))
          (fmul (Fin 0.3) (fmul reg (loss_weight_claimed w cls reg)))"


subsection \<open>Concrete inputs: losses\<close>

text \<open>
  One video, one pyramid level with one location, one class. The loss primitives are
  stand-ins with constant values: each focal element costs 1 and each row of offsets has
  a GIoU and a DIoU loss of 0.5.
\<close>

definition fns1 :: loss_fns where
  "fns1 = \<lparr>sigmoid_focal_loss = (\<lambda>x t. Fin 1),
            ctr_giou_loss_1d = (\<lambda>p g. Fin 0.5),
            ctr_diou_loss_1d = (\<lambda>p g. Fin 0.5)\<rparr>"

definition self1 :: loss_cfg where
  "self1 = \<lparr>num_classes = 1, train_center_sample = Radius, train_center_sample_radius = 1.5,
             num_bins = 16, train_label_smoothing = 0, train_loss_weight = - 1,
             loss_normalizer_momentum = 0.9\<rparr>"

definition clip_logits1 :: "fval list list list list" where
  "clip_logits1 = [[[replicate 200 (Fin 0)]]]"

definition clip_target_pos :: "real list list list" where
  "clip_target_pos = [[one_hot 200 0]]"

definition clip_target_neg :: "real list list list" where
  "clip_target_neg = [[replicate 200 0]]"


section \<open>Properties\<close>

subsection \<open>Results as values\<close>

lemma ebind_InrE:
  assumes "ebind m f = Inr y"
  obtains x where "m = Inr x" "f x = Inr y"
  using assms by (cases m) (auto simp: ebind_def)

lemma getitem_Inr: "getitem d k = Inr v \<longleftrightarrow> d k = Some v"
  by (auto simp: getitem_def split: option.splits)

lemma detach_cpu_Inr: "detach_cpu v = Inr w \<Longrightarrow> w = v"
  by (cases v) auto

lemma emap_Inr:
  "emap f xs = Inr ys \<Longrightarrow> length ys = length xs \<and> (\<forall>i<length xs. f (xs ! i) = Inr (ys ! i))"
proof (induction xs arbitrary: ys)
  case Nil
  then show ?case by simp
next
  case (Cons x xs)
  from Cons.prems obtain y ys' where y: "f x = Inr y" and r: "emap f xs = Inr ys'" and e: "ys = y # ys'"
    by (auto elim!: ebind_InrE)
  from Cons.IH[OF r] show ?case using y e
    by (auto simp: nth_Cons split: nat.splits)
qed

subsection \<open>Postprocessing\<close>

lemma truncate_boundary_clamp: "truncate_boundary vlen x = min vlen (max 0 x)"
  by (auto simp: truncate_boundary_def Let_def min_def max_def)

lemma postprocess_video_Inr:
  assumes "postprocess_video nms cfg r = Inr out"
  obtains vidx fps vlen stride nframes s sc l s1 sc1 l1 s2 where
    "r ''video_id'' = Some vidx" "r ''fps'' = Some fps" "r ''duration'' = Some vlen"
    "r ''feat_stride'' = Some stride" "r ''feat_num_frames'' = Some nframes"
    "r ''segments'' = Some s" "r ''scores'' = Some sc" "r ''labels'' = Some l"
    "(if test_nms_method cfg \<noteq> NoNms
        then nms cfg (test_nms_method cfg = Soft) s sc l
        else Inr (s, sc, l)) = Inr (s1, sc1, l1)"
    "convert_segs s1 stride nframes fps vlen = Inr s2"
    "out = [''video_id'' \<mapsto> vidx, ''segments'' \<mapsto> s2, ''scores'' \<mapsto> sc1, ''labels'' \<mapsto> l1]"
proof -
  from assms[unfolded postprocess_video_def]
  obtain vidx fps vlen stride nframes s0 s sc0 sc l0 l t s2 where
    a: "r ''video_id'' = Some vidx" "r ''fps'' = Some fps" "r ''duration'' = Some vlen"
    "r ''feat_stride'' = Some stride" "r ''feat_num_frames'' = Some nframes"
    "r ''segments'' = Some s0" "detach_cpu s0 = Inr s"
    "r ''scores'' = Some sc0" "detach_cpu sc0 = Inr sc"
    "r ''labels'' = Some l0" "detach_cpu l0 = Inr l"
    and b: "(if test_nms_method cfg \<noteq> NoNms
        then nms cfg (test_nms_method cfg = Soft) s sc l
        else Inr (s, sc, l)) = Inr t"
    and c: "(case t of (segs1, scores1, labels1) \<Rightarrow>
        ebind (convert_segs segs1 stride nframes fps vlen) (\<lambda>segs2.
       Inr [''video_id'' \<mapsto> vidx, ''segments'' \<mapsto> segs2,
            ''scores'' \<mapsto> scores1, ''labels'' \<mapsto> labels1])) = Inr out"
    by (elim ebind_InrE) (simp only: getitem_Inr)
  obtain s1 sc1 l1 where t: "t = (s1, sc1, l1)" by (cases t)
  from c t obtain s2 where d: "convert_segs s1 stride nframes fps vlen = Inr s2"
    and e: "out = [''video_id'' \<mapsto> vidx, ''segments'' \<mapsto> s2, ''scores'' \<mapsto> sc1, ''labels'' \<mapsto> l1]"
    by (auto elim!: ebind_InrE)
  have "s = s0" "sc = sc0" "l = l0" using a by (auto dest: detach_cpu_Inr)
  with a b t d e that show thesis by blast
qed

lemma pp_video_segments:
  assumes "postprocess_video nms cfg r = Inr out"
    and "r ''segments'' = Some s" "r ''scores'' = Some sc" "r ''labels'' = Some l"
    and "(if test_nms_method cfg \<noteq> NoNms
            then nms cfg (test_nms_method cfg = Soft) s sc l
            else Inr (s, sc, l)) = Inr (PMat segs, sc1, l1)"
    and "segs \<noteq> []"
    and "r ''feat_stride'' = Some (PNum stride)"
    and "r ''feat_num_frames'' = Some (PNum nframes)"
    and "r ''fps'' = Some (PNum fps)"
    and "r ''duration'' = Some (PNum vlen)"
  shows "out ''segments'' = Some (PMat (map (map (\<lambda>g. min vlen (max 0 ((g * stride + 0.5 * nframes) / fps)))) segs))"
proof -
  from assms(1) obtain vidx s2 sc1' l1' where
    c: "convert_segs (PMat segs) (PNum stride) (PNum nframes) (PNum fps) (PNum vlen) = Inr s2"
    and o: "out = [''video_id'' \<mapsto> vidx, ''segments'' \<mapsto> s2, ''scores'' \<mapsto> sc1', ''labels'' \<mapsto> l1']"
    by (rule postprocess_video_Inr[where nms = nms]) (use assms(2-) in auto)
  from c assms(6) have "s2 = PMat (map (map (\<lambda>g. min vlen (max 0 ((g * stride + 0.5 * nframes) / fps)))) segs)"
    by (simp add: convert_segs_def ebind_def truncate_boundary_clamp grid_to_seconds_def)
  with o show ?thesis by simp
qed

text \<open>
  C9. In \<^verbatim>\<open>postprocessing\<close>, every boundary \<open>g\<close> of the segments that survive the
  NMS step (the input segments when the method is \<^verbatim>\<open>'none'\<close>) is mapped to
  \<open>(g * feat_stride + 0.5 * feat_num_frames) / fps\<close> and then clipped to
  \<open>[0, duration]\<close>. Grid value 10 with stride 4, 16 frames and fps 25 maps to 1.92, and
  with duration 1.5 it is clipped to 1.5. (For \<open>fps = 0\<close> the source divides a
  tensor by zero and yields infinities or NaN, which the reals do not model.)
\<close>

theorem postprocessing_time_mapping:
  assumes "postprocessing batched_nms cfg results = Inr out"
    and "i < length results"
    and "(results ! i) ''segments'' = Some s"
    and "(results ! i) ''scores'' = Some sc"
    and "(results ! i) ''labels'' = Some l"
    and "(if test_nms_method cfg \<noteq> NoNms
            then batched_nms cfg (test_nms_method cfg = Soft) s sc l
            else Inr (s, sc, l)) = Inr (PMat segs, sc1, l1)"
    and "segs \<noteq> []"
    and "(results ! i) ''feat_stride'' = Some (PNum stride)"
    and "(results ! i) ''feat_num_frames'' = Some (PNum nframes)"
    and "(results ! i) ''fps'' = Some (PNum fps)"
    and "(results ! i) ''duration'' = Some (PNum vlen)"
    and "fps \<noteq> 0"
  shows "(out ! i) ''segments'' =
           Some (PMat (map (map (\<lambda>g. min vlen (max 0 ((g * stride + 0.5 * nframes) / fps)))) segs))
       \<and> grid_to_seconds 4 16 25 10 = 1.92
       \<and> truncate_boundary 1.5 (grid_to_seconds 4 16 25 10) = 1.5"
proof -
  from assms(1,2) have "postprocess_video batched_nms cfg (results ! i) = Inr (out ! i)"
    by (simp add: postprocessing_def emap_Inr)
  from pp_video_segments[OF this assms(3-11)]
  have a: "(out ! i) ''segments'' =
           Some (PMat (map (map (\<lambda>g. min vlen (max 0 ((g * stride + 0.5 * nframes) / fps)))) segs))" .
  have b: "grid_to_seconds 4 16 25 10 = 1.92"
    by (simp add: grid_to_seconds_def)
  then have "truncate_boundary 1.5 (grid_to_seconds 4 16 25 10) = 1.5"
    by (simp add: truncate_boundary_def)
  with a b show ?thesis by simp
qed

lemma pp_eval1:
  "postprocessing nms_unused cfg_none [video_result 100 [[2, 10]], video_result 1.5 [[2, 10]]]
     = Inr [[''video_id'' \<mapsto> PStr ''v1'', ''segments'' \<mapsto> PMat [[0.64, 1.92]],
             ''scores'' \<mapsto> PVec [0.9], ''labels'' \<mapsto> PLabels [0]],
            [''video_id'' \<mapsto> PStr ''v1'', ''segments'' \<mapsto> PMat [[0.64, 1.5]],
             ''scores'' \<mapsto> PVec [0.9], ''labels'' \<mapsto> PLabels [0]]]"
  by (simp add: postprocessing_def postprocess_video_def getitem_def ebind_def cfg_none_def
      video_result_def convert_segs_def truncate_boundary_def grid_to_seconds_def)

text \<open>
  The theorem at two videos with the segment \<open>(2, 10)\<close>, stride 4, 16 frames, fps 25:
  with duration 100 the end maps to 1.92, with duration 1.5 it is clipped to 1.5.
\<close>

theorem postprocessing_time_mapping_witness:
  "postprocessing nms_unused cfg_none [video_result 100 [[2, 10]], video_result 1.5 [[2, 10]]]
     = Inr [[''video_id'' \<mapsto> PStr ''v1'', ''segments'' \<mapsto> PMat [[0.64, 1.92]],
             ''scores'' \<mapsto> PVec [0.9], ''labels'' \<mapsto> PLabels [0]],
            [''video_id'' \<mapsto> PStr ''v1'', ''segments'' \<mapsto> PMat [[0.64, 1.5]],
             ''scores'' \<mapsto> PVec [0.9], ''labels'' \<mapsto> PLabels [0]]]
   \<and> ([''video_id'' \<mapsto> PStr ''v1'', ''segments'' \<mapsto> PMat [[0.64, 1.5]],
             ''scores'' \<mapsto> PVec [0.9], ''labels'' \<mapsto> PLabels [0]]) ''segments''
       = Some (PMat (map (map (\<lambda>g. min 1.5 (max 0 ((g * 4 + 0.5 * 16) / 25)))) [[2, 10]]))
   \<and> (25::real) \<noteq> 0"
proof -
  note e = pp_eval1
  have "([[''video_id'' \<mapsto> PStr ''v1'', ''segments'' \<mapsto> PMat [[0.64, 1.92]],
             ''scores'' \<mapsto> PVec [0.9], ''labels'' \<mapsto> PLabels [0]],
            [''video_id'' \<mapsto> PStr ''v1'', ''segments'' \<mapsto> PMat [[0.64, 1.5]],
             ''scores'' \<mapsto> PVec [0.9], ''labels'' \<mapsto> PLabels [0]]] ! 1) ''segments''
       = Some (PMat (map (map (\<lambda>g. min 1.5 (max 0 ((g * 4 + 0.5 * 16) / 25)))) [[2, 10]]))"
    by (rule postprocessing_time_mapping[OF e, where s = "PMat [[2, 10]]" and sc = "PVec [0.9]"
          and l = "PLabels [0]" and ?sc1.0 = "PVec [0.9]" and ?l1.0 = "PLabels [0]", THEN conjunct1])
       (simp_all add: video_result_def cfg_none_def)
  with e show ?thesis by simp
qed

text \<open>
  C4, as stated, fails. On a result whose segment \<open>(0.64, 1.92)\<close> already is in
  seconds and inside \<open>[0, 100]\<close>, with \<^verbatim>\<open>nms_method = 'none'\<close>: one application
  maps the segment again, to \<open>(0.4224, 0.6272)\<close>; a second application to the output
  of the first raises \<^verbatim>\<open>KeyError('fps')\<close>, since the output record holds no
  \<^verbatim>\<open>fps\<close>; and with the metadata of the input put back into the output, the second
  application maps the segment a third time.
\<close>

theorem postprocessing_idempotent_counterexample:
  "postprocessing nms_unused cfg_none [clipped_result]
     = Inr [[''video_id'' \<mapsto> PStr ''v1'', ''segments'' \<mapsto> PMat [[0.4224, 0.6272]],
             ''scores'' \<mapsto> PVec [0.9], ''labels'' \<mapsto> PLabels [0]]]
   \<and> ebind (postprocessing nms_unused cfg_none [clipped_result])
         (postprocessing nms_unused cfg_none) = Inl (KeyError ''fps'')
   \<and> ebind (postprocessing nms_unused cfg_none [clipped_result])
         (\<lambda>out. postprocessing nms_unused cfg_none (map (with_meta clipped_result) out))
     = Inr [[''video_id'' \<mapsto> PStr ''v1'', ''segments'' \<mapsto> PMat [[0.387584, 0.420352]],
             ''scores'' \<mapsto> PVec [0.9], ''labels'' \<mapsto> PLabels [0]]]"
  by (simp add: postprocessing_def postprocess_video_def getitem_def ebind_def cfg_none_def
      clipped_result_def convert_segs_def truncate_boundary_def grid_to_seconds_def with_meta_def)

text \<open>
  C4, amended. With \<^verbatim>\<open>nms_method = 'none'\<close>, one application of
  \<^verbatim>\<open>postprocessing\<close> returns one record per video with the scores and labels of the
  input unchanged; each output record holds exactly the keys \<^verbatim>\<open>video_id\<close>,
  \<^verbatim>\<open>segments\<close>, \<^verbatim>\<open>scores\<close> and \<^verbatim>\<open>labels\<close>, so applying
  \<^verbatim>\<open>postprocessing\<close> to its own non-empty output raises
  \<^verbatim>\<open>KeyError('fps')\<close>.
\<close>

theorem postprocessing_not_reapplicable:
  assumes "postprocessing batched_nms cfg results = Inr out"
    and "test_nms_method cfg = NoNms"
  shows "(\<forall>i<length results.
            (out ! i) ''scores'' = (results ! i) ''scores''
          \<and> (out ! i) ''labels'' = (results ! i) ''labels''
          \<and> dom (out ! i) = {''video_id'', ''segments'', ''scores'', ''labels''})
       \<and> length out = length results
       \<and> (results \<noteq> [] \<longrightarrow> postprocessing batched_nms cfg out = Inl (KeyError ''fps''))"
proof -
  have len: "length out = length results"
    using assms(1) by (simp add: postprocessing_def emap_Inr)
  have each: "(out ! i) ''scores'' = (results ! i) ''scores''
          \<and> (out ! i) ''labels'' = (results ! i) ''labels''
          \<and> dom (out ! i) = {''video_id'', ''segments'', ''scores'', ''labels''}"
    if "i < length results" for i
  proof -
    from assms(1) that have "postprocess_video batched_nms cfg (results ! i) = Inr (out ! i)"
      by (simp add: postprocessing_def emap_Inr)
    then show ?thesis
      by (rule postprocess_video_Inr) (use assms(2) in auto)
  qed
  have "postprocessing batched_nms cfg out = Inl (KeyError ''fps'')" if "results \<noteq> []"
  proof -
    from that len obtain o1 os where out: "out = o1 # os" by (cases out) auto
    from each[of 0] that out have "dom o1 = {''video_id'', ''segments'', ''scores'', ''labels''}"
      by simp
    then have "''fps'' \<notin> dom o1" "''video_id'' \<in> dom o1" by simp_all
    then obtain v where "o1 ''fps'' = None" "o1 ''video_id'' = Some v" by blast
    then have "postprocess_video batched_nms cfg o1 = Inl (KeyError ''fps'')"
      by (simp add: postprocess_video_def getitem_def ebind_def)
    then show ?thesis by (simp add: out postprocessing_def ebind_def)
  qed
  with len each show ?thesis by blast
qed

text \<open>The amended statement at the one-video result of the counterexample.\<close>

theorem postprocessing_not_reapplicable_witness:
  "postprocessing nms_unused cfg_none [clipped_result]
     = Inr [[''video_id'' \<mapsto> PStr ''v1'', ''segments'' \<mapsto> PMat [[0.4224, 0.6272]],
             ''scores'' \<mapsto> PVec [0.9], ''labels'' \<mapsto> PLabels [0]]]
   \<and> test_nms_method cfg_none = NoNms
   \<and> postprocessing nms_unused cfg_none
        [[''video_id'' \<mapsto> PStr ''v1'', ''segments'' \<mapsto> PMat [[0.4224, 0.6272]],
             ''scores'' \<mapsto> PVec [0.9], ''labels'' \<mapsto> PLabels [0]]] = Inl (KeyError ''fps'')"
proof -
  have e: "postprocessing nms_unused cfg_none [clipped_result]
     = Inr [[''video_id'' \<mapsto> PStr ''v1'', ''segments'' \<mapsto> PMat [[0.4224, 0.6272]],
             ''scores'' \<mapsto> PVec [0.9], ''labels'' \<mapsto> PLabels [0]]]"
    by (simp add: postprocessing_def postprocess_video_def getitem_def ebind_def cfg_none_def
      clipped_result_def convert_segs_def truncate_boundary_def grid_to_seconds_def)
  have n: "test_nms_method cfg_none = NoNms" by (simp add: cfg_none_def)
  have "[clipped_result] \<noteq> [] \<longrightarrow> postprocessing nms_unused cfg_none
        [[''video_id'' \<mapsto> PStr ''v1'', ''segments'' \<mapsto> PMat [[0.4224, 0.6272]],
             ''scores'' \<mapsto> PVec [0.9], ''labels'' \<mapsto> PLabels [0]]] = Inl (KeyError ''fps'')"
    using postprocessing_not_reapplicable[OF e n] by blast
  then have "postprocessing nms_unused cfg_none
        [[''video_id'' \<mapsto> PStr ''v1'', ''segments'' \<mapsto> PMat [[0.4224, 0.6272]],
             ''scores'' \<mapsto> PVec [0.9], ''labels'' \<mapsto> PLabels [0]]] = Inl (KeyError ''fps'')"
    by simp
  with e n show ?thesis by (intro conjI)
qed

subsection \<open>Label assignment\<close>

lemma flt_not_nan: "flt a b \<Longrightarrow> \<not> isnan a \<and> \<not> isnan b"
  by (cases a; cases b) auto

lemma fle_total: "\<not> isnan a \<Longrightarrow> \<not> isnan b \<Longrightarrow> \<not> flt a b \<Longrightarrow> fle b a"
  by (cases a; cases b) auto

lemma flt_fle: "flt a b \<Longrightarrow> fle a b"
  by (cases a; cases b) auto

lemma fle_refl: "\<not> isnan a \<Longrightarrow> fle a a"
  by (cases a) auto

lemma fle_trans: "fle a b \<Longrightarrow> fle b c \<Longrightarrow> fle a c"
  by (cases a; cases b; cases c) auto

lemma min_from_nth:
  "min_from x xs = (m, i) \<Longrightarrow> i < Suc (length xs) \<and> (x # xs) ! i = m"
proof (induction xs arbitrary: x m i)
  case Nil
  then show ?case by simp
next
  case (Cons y ys)
  obtain m' i' where r: "min_from y ys = (m', i')" by (cases "min_from y ys")
  from Cons.IH[OF r] Cons.prems r show ?case
    by (auto split: if_splits)
qed

lemma min_from_le:
  "min_from x xs = (m, i) \<Longrightarrow> \<not> isnan x \<Longrightarrow> list_all (\<lambda>y. \<not> isnan y) xs
     \<Longrightarrow> \<not> isnan m \<and> fle m x \<and> list_all (fle m) xs"
proof (induction xs arbitrary: x m i)
  case Nil
  then show ?case by (simp add: fle_refl)
next
  case (Cons y ys)
  obtain m' i' where r: "min_from y ys = (m', i')" by (cases "min_from y ys")
  from Cons.prems have ny: "\<not> isnan y" and nys: "list_all (\<lambda>y. \<not> isnan y) ys" by simp_all
  from Cons.IH[OF r ny nys] have ih: "\<not> isnan m'" "fle m' y" "list_all (fle m') ys" by simp_all
  show ?case
  proof (cases "flt m' x")
    case True
    with Cons.prems r have "m = m'" by simp
    with ih True show ?thesis by (simp add: flt_fle)
  next
    case False
    with Cons.prems r have mx: "m = x" by simp
    from False ih(1) Cons.prems(2) have xm: "fle x m'" by (rule_tac fle_total) auto
    have "list_all (fle x) ys"
      using ih(3) xm by (induction ys) (auto intro: fle_trans)
    with mx xm ih(2) Cons.prems(2) show ?thesis
      by (auto intro: fle_trans fle_refl)
  qed
qed

lemma masked_len_cases:
  "masked_len cfg p seg = (if candidate cfg p seg then Fin (duration seg) else PInf)"
  by (simp add: masked_len_def candidate_def duration_def Let_def)

lemma lens_row_nth:
  "n < length segs \<Longrightarrow> lens_row cfg p segs ! n
     = (if candidate cfg p (segs ! n) then Fin (duration (segs ! n)) else PInf)"
  by (simp add: lens_row_def masked_len_cases)

lemma lens_row_not_nan: "list_all (\<lambda>y. \<not> isnan y) (lens_row cfg p segs)"
  by (auto simp: lens_row_def list_all_iff masked_len_cases)

lemma length_lens_row: "length (lens_row cfg p segs) = length segs"
  by (simp add: lens_row_def)

lemma torch_min_lens:
  assumes "segs \<noteq> []" and "torch_min (lens_row cfg p segs) = (m, i)"
  shows "i < length segs" and "lens_row cfg p segs ! i = m"
    and "\<And>k. k < length segs \<Longrightarrow> fle m (lens_row cfg p segs ! k)"
proof -
  from assms(1) obtain x xs where l: "lens_row cfg p segs = x # xs"
    by (cases "lens_row cfg p segs") (auto simp: lens_row_def)
  with assms(2) have mf: "min_from x xs = (m, i)" by simp
  from min_from_nth[OF mf] l length_lens_row[of cfg p segs]
  show "i < length segs" and "lens_row cfg p segs ! i = m" by auto
  from lens_row_not_nan[of cfg p segs] l have "\<not> isnan x" "list_all (\<lambda>y. \<not> isnan y) xs" by auto
  from min_from_le[OF mf this] have "list_all (fle m) (x # xs)" by simp
  then show "fle m (lens_row cfg p segs ! k)" if "k < length segs" for k
    using that l length_lens_row[of cfg p segs] unfolding list_all_length by auto
qed

lemma torch_min_no_candidate:
  assumes "segs \<noteq> []" and "\<And>k. k < length segs \<Longrightarrow> \<not> candidate cfg p (segs ! k)"
  shows "torch_min (lens_row cfg p segs) = (PInf, 0)"
proof -
  have all: "lens_row cfg p segs = replicate (length segs) PInf"
    using assms(2) by (auto simp: list_eq_iff_nth_eq length_lens_row lens_row_nth)
  have "min_from PInf (replicate n PInf) = (PInf, 0)" for n
    by (induction n) auto
  with all assms(1) show ?thesis by (cases segs) auto
qed

lemma torch_min_candidate:
  assumes "torch_min (lens_row cfg p segs) = (m, i)"
    and "k < length segs" "candidate cfg p (segs ! k)"
  shows "i < length segs \<and> candidate cfg p (segs ! i) \<and> m = Fin (duration (segs ! i))
       \<and> (\<forall>j<length segs. candidate cfg p (segs ! j) \<longrightarrow> duration (segs ! i) \<le> duration (segs ! j))"
proof -
  from assms(2) have ne: "segs \<noteq> []" by auto
  note tm = torch_min_lens[OF ne assms(1)]
  from tm(3)[OF assms(2)] assms(2,3) have mk: "fle m (Fin (duration (segs ! k)))"
    by (simp add: lens_row_nth)
  have ci: "candidate cfg p (segs ! i)"
  proof (rule ccontr)
    assume "\<not> candidate cfg p (segs ! i)"
    with tm(1,2) have "m = PInf" by (simp add: lens_row_nth)
    with mk show False by simp
  qed
  with tm(1,2) have m: "m = Fin (duration (segs ! i))" by (simp add: lens_row_nth)
  have "duration (segs ! i) \<le> duration (segs ! j)" if "j < length segs" "candidate cfg p (segs ! j)" for j
    using tm(3)[OF that(1)] that m by (simp add: lens_row_nth)
  with tm(1) ci m show ?thesis by blast
qed

lemma min_len_mask_nth:
  assumes "n < length segs"
  shows "min_len_mask (lens_row cfg p segs) ! n =
     (if candidate cfg p (segs ! n) \<and>
         (\<forall>j<length segs. candidate cfg p (segs ! j) \<longrightarrow> duration (segs ! n) \<le> duration (segs ! j) + 1 / 1000)
      then 1 else 0)"
proof -
  obtain m i where mi: "torch_min (lens_row cfg p segs) = (m, i)"
    by (cases "torch_min (lens_row cfg p segs)")
  have e: "min_len_mask (lens_row cfg p segs) ! n =
     (if fle (lens_row cfg p segs ! n) (fadd m (Fin (1 / 1000))) \<and> flt (lens_row cfg p segs ! n) PInf then 1 else 0)"
    using assms mi by (simp add: min_len_mask_def length_lens_row)
  show ?thesis
  proof (cases "candidate cfg p (segs ! n)")
    case False
    with e assms show ?thesis by (simp add: lens_row_nth)
  next
    case True
    from torch_min_candidate[OF mi assms True]
    have i: "i < length segs" "candidate cfg p (segs ! i)" "m = Fin (duration (segs ! i))"
      and least: "\<And>j. j < length segs \<Longrightarrow> candidate cfg p (segs ! j) \<Longrightarrow> duration (segs ! i) \<le> duration (segs ! j)"
      by blast+
    have "(\<forall>j<length segs. candidate cfg p (segs ! j) \<longrightarrow> duration (segs ! n) \<le> duration (segs ! j) + 1 / 1000)
        \<longleftrightarrow> duration (segs ! n) \<le> duration (segs ! i) + 1 / 1000"
      using i(1,2) least by fastforce
    with e True assms i(3) show ?thesis by (simp add: lens_row_nth)
  qed
qed

lemma length_min_len_mask: "length (min_len_mask xs) = length xs"
  by (simp add: min_len_mask_def)

lemma min_len_mask_range: "x \<in> set (min_len_mask xs) \<Longrightarrow> x = 0 \<or> x = 1"
  by (auto simp: min_len_mask_def)


lemma one_hot_nth: "c < n \<Longrightarrow> one_hot n l ! c = (if c = l then 1 else 0)"
  by (simp add: one_hot_def)

lemma cls_row_nth:
  assumes "c < n" and "length labels = length segs"
  shows "cls_row cfg p segs labels n ! c =
     clamp01 (\<Sum>k = 0..<length segs.
        min_len_mask (lens_row cfg p segs) ! k * (if c = labels ! k then 1 else 0))"
proof -
  let ?mask = "min_len_mask (lens_row cfg p segs)"
  let ?xs = "map2 (\<lambda>a row. a * row ! c) ?mask (map (one_hot n) labels)"
  have len: "length ?xs = length segs"
    using assms(2) by (simp add: length_min_len_mask length_lens_row)
  have "sum_list ?xs = (\<Sum>k = 0..<length segs. ?xs ! k)"
    using len by (simp add: sum_list_sum_nth)
  also have "\<dots> = (\<Sum>k = 0..<length segs. ?mask ! k * (if c = labels ! k then 1 else 0))"
    using assms by (intro sum.cong) (simp_all add: length_min_len_mask length_lens_row one_hot_nth)
  finally show ?thesis
    using assms(1) by (simp add: cls_row_def vec_matmul_def)
qed

lemma length_cls_row: "length (cls_row cfg p segs labels n) = n"
  by (simp add: cls_row_def vec_matmul_def)

lemma mask_nonneg: "k < length segs \<Longrightarrow> 0 \<le> min_len_mask (lens_row cfg p segs) ! k"
  by (simp add: min_len_mask_nth)

lemma cls_row_hit:
  assumes "c < n" and "length labels = length segs"
    and "k < length segs" "min_len_mask (lens_row cfg p segs) ! k = 1" "labels ! k = c"
  shows "cls_row cfg p segs labels n ! c = 1"
proof -
  let ?f = "\<lambda>k. min_len_mask (lens_row cfg p segs) ! k * (if c = labels ! k then 1 else 0 :: real)"
  have nn: "\<And>j. j \<in> {0..<length segs} \<Longrightarrow> 0 \<le> ?f j"
    by (simp add: mask_nonneg)
  have "?f k \<le> (\<Sum>j = 0..<length segs. ?f j)"
    using assms(3) nn by (intro member_le_sum) auto
  with assms(4,5) have "1 \<le> (\<Sum>j = 0..<length segs. ?f j)" by simp
  then show ?thesis
    using assms(1,2) by (simp add: cls_row_nth clamp01_def)
qed

lemma cls_row_nonzero:
  assumes "c < n" and "length labels = length segs"
    and "cls_row cfg p segs labels n ! c \<noteq> 0"
  shows "\<exists>k<length segs. min_len_mask (lens_row cfg p segs) ! k = 1 \<and> labels ! k = c"
proof (rule ccontr)
  assume a: "\<not> ?thesis"
  have "min_len_mask (lens_row cfg p segs) ! k * (if c = labels ! k then 1 else 0 :: real) = 0"
    if "k < length segs" for k
  proof (cases "c = labels ! k")
    case True
    with a that have "min_len_mask (lens_row cfg p segs) ! k \<noteq> 1" by blast
    moreover have "min_len_mask (lens_row cfg p segs) ! k = 0 \<or> min_len_mask (lens_row cfg p segs) ! k = 1"
      using that by (simp add: min_len_mask_nth)
    ultimately show ?thesis by simp
  next
    case False
    then show ?thesis by simp
  qed
  then have "(\<Sum>k = 0..<length segs.
        min_len_mask (lens_row cfg p segs) ! k * (if c = labels ! k then 1 else 0 :: real)) = 0"
    by (intro sum.neutral) auto
  with assms show False by (simp add: cls_row_nth clamp01_def)
qed

lemma cls_row_range: "c < n \<Longrightarrow> 0 \<le> cls_row cfg p segs labels n ! c \<and> cls_row cfg p segs labels n ! c \<le> 1"
  by (simp add: cls_row_def vec_matmul_def clamp01_def)

lemma label_points_Inr:
  assumes "label_points_single_video cfg pts segs labels = Inr (cls, reg, clip)" and "segs \<noteq> []"
  shows "list_all (\<lambda>l. l < num_classes cfg) labels" "list_all (\<lambda>l. l < 200) labels"
    "length labels = length segs"
    "cls = map (\<lambda>p. cls_row cfg p segs labels (num_classes cfg)) pts"
    "reg = map (\<lambda>p. reg_row cfg p segs) pts"
    "clip = map (\<lambda>p. cls_row cfg p segs labels 200) pts"
  using assms by (auto simp: label_points_single_video_def split: if_splits)

lemma maskA: "min_len_mask (lens_row cfgA ptA segsA) = [1, 1]"
  by (simp add: cfgA_def ptA_def segsA_def lens_row_def masked_len_def min_len_mask_def
   inside_gt_seg_mask_def inside_regress_range_def left_def right_def)

lemma indA: "min_len_inds cfgA ptA segsA = 0"
  by (simp add: cfgA_def ptA_def segsA_def lens_row_def masked_len_def min_len_inds_def
   inside_gt_seg_mask_def inside_regress_range_def left_def right_def)

lemma candA: "candidate cfgA ptA (1, 3)" "candidate cfgA ptA (1, 3.0005)"
  by (simp_all add: cfgA_def ptA_def candidate_def
   inside_gt_seg_mask_def inside_regress_range_def left_def right_def)

lemma evalA: "label_points_single_video cfgA [ptA] segsA [0, 1]
   = Inr ([[1, 1]], [(1, 1)], [map (\<lambda>c. if c = 0 \<or> c = 1 then 1 else 0) [0..<200]])"
proof -
  have a: "cls_row cfgA ptA segsA [0, 1] 2 = [1, 1]"
    by (simp add: cls_row_def maskA vec_matmul_def one_hot_def clamp01_def numeral_2_eq_2)
  have b: "cls_row cfgA ptA segsA [0, 1] 200 = map (\<lambda>c. if c = 0 \<or> c = 1 then 1 else 0) [0..<200]"
    by (simp add: cls_row_def maskA vec_matmul_def one_hot_nth clamp01_def)
  have c: "reg_row cfgA ptA segsA = (1, 1)"
    by (simp add: reg_row_def indA) (simp add: segsA_def left_def right_def ptA_def)
  have d: "num_classes cfgA = 2" "length segsA = 2" by (simp_all add: cfgA_def segsA_def)
  show ?thesis
    using a b c d by (simp add: label_points_single_video_def)
qed

lemma maskB: "min_len_mask (lens_row cfgA ptB [(1, 3)]) = [0]"
  by (simp add: cfgA_def ptB_def lens_row_def masked_len_def min_len_mask_def
   inside_gt_seg_mask_def inside_regress_range_def left_def right_def)

lemma indB: "min_len_inds cfgA ptB [(1, 3)] = 0"
  by (simp add: lens_row_def min_len_inds_def)

lemma evalB: "label_points_single_video cfgA [ptB] [(1, 3)] [0]
   = Inr ([[0, 0]], [(4, - 2)], [replicate 200 0])"
proof -
  have a: "cls_row cfgA ptB [(1, 3)] [0] 2 = [0, 0]"
    by (simp add: cls_row_def maskB vec_matmul_def one_hot_def clamp01_def numeral_2_eq_2)
  have b: "cls_row cfgA ptB [(1, 3)] [0] 200 = replicate 200 0"
    by (simp add: cls_row_def maskB vec_matmul_def clamp01_def map_replicate_const)
  have c: "reg_row cfgA ptB [(1, 3)] = (4, - 2)"
    by (simp add: reg_row_def indB) (simp add: left_def right_def ptB_def)
  have d: "num_classes cfgA = 2" by (simp_all add: cfgA_def)
  show ?thesis
    using a b c d by (simp add: label_points_single_video_def)
qed

text \<open>
  C1, as stated, fails in its regression part. With one ground-truth segment \<open>(1, 3)\<close>
  and the point at time 5 (stride 1, range \<open>[0, 4]\<close>), the point lies outside the segment
  and is a candidate for no segment; its classification targets are zero, but its
  regression target is \<open>(4, -2)\<close>, the distances to segment 0, not \<open>(0, 0)\<close>.
\<close>

theorem no_candidate_regression_counterexample:
  "label_points_single_video cfgA [ptB] [(1, 3)] [0] = Inr ([[0, 0]], [(4, - 2)], [replicate 200 0])
   \<and> \<not> candidate cfgA ptB (1, 3)"
  using evalB
  by (simp add: cfgA_def ptB_def candidate_def inside_gt_seg_mask_def left_def right_def)

text \<open>
  C1, amended. For every grid point that is a candidate for no ground-truth segment,
  \<^verbatim>\<open>label_points_single_video\<close> produces an all-zero primary classification target
  and an all-zero secondary classification target. Its regression target is \<open>(0, 0)\<close>
  when the video has no ground-truth segment; otherwise it is the pair of distances
  \<open>(left, right)\<close> of the point to the segment of index 0 (the argmin of a row of
  \<^verbatim>\<open>lens\<close> that is infinite everywhere), divided by the stride of the point.
\<close>

theorem no_candidate_targets:
  assumes "label_points_single_video cfg pts segs labels = Inr (cls, reg, clip)"
    and "p < length pts"
    and "\<forall>k<length segs. \<not> candidate cfg (pts ! p) (segs ! k)"
  shows "cls ! p = replicate (num_classes cfg) 0
       \<and> clip ! p = replicate 200 0
       \<and> reg ! p = (if segs = [] then (0, 0)
                    else (left (pts ! p) (segs ! 0) / pt_stride (pts ! p),
                          right (pts ! p) (segs ! 0) / pt_stride (pts ! p)))"
proof (cases "segs = []")
  case True
  with assms(1,2) show ?thesis by (auto simp: label_points_single_video_def)
next
  case False
  note r = label_points_Inr[OF assms(1) False]
  have z: "cls_row cfg (pts ! p) segs labels n = replicate n 0" for n
  proof -
    have "cls_row cfg (pts ! p) segs labels n ! c = 0" if "c < n" for c
    proof (rule ccontr)
      assume "cls_row cfg (pts ! p) segs labels n ! c \<noteq> 0"
      from cls_row_nonzero[OF that r(3) this]
      obtain k where "k < length segs" "min_len_mask (lens_row cfg (pts ! p) segs) ! k = 1" by blast
      with assms(3) show False by (simp add: min_len_mask_nth)
    qed
    then show ?thesis by (simp add: list_eq_iff_nth_eq length_cls_row)
  qed
  have "min_len_inds cfg (pts ! p) segs = 0"
    using torch_min_no_candidate[OF False, of cfg "pts ! p"] assms(3)
    by (simp add: min_len_inds_def)
  then have "reg_row cfg (pts ! p) segs
     = (left (pts ! p) (segs ! 0) / pt_stride (pts ! p), right (pts ! p) (segs ! 0) / pt_stride (pts ! p))"
    by (simp add: reg_row_def Let_def)
  with z r(4-6) assms(2) False show ?thesis by simp
qed

text \<open>The amended statement at the input of the counterexample.\<close>

theorem no_candidate_targets_witness:
  "label_points_single_video cfgA [ptB] [(1, 3)] [0] = Inr ([[0, 0]], [(4, - 2)], [replicate 200 0])
   \<and> \<not> candidate cfgA ptB (1, 3)
   \<and> [[0, 0]] ! 0 = replicate (num_classes cfgA) (0::real)
   \<and> [(4, - 2)] ! 0 = (left ptB (1, 3) / pt_stride ptB, right ptB (1, 3) / pt_stride ptB)"
proof -
  have nc: "\<not> candidate cfgA ptB (1, 3)"
    by (simp add: cfgA_def ptB_def candidate_def inside_gt_seg_mask_def left_def right_def)
  have "[[0, 0]] ! 0 = replicate (num_classes cfgA) (0::real)
       \<and> [replicate 200 0] ! 0 = replicate 200 (0::real)
       \<and> [(4, - 2)] ! 0 = (if [(1, 3) :: real \<times> real] = [] then (0, 0)
                    else (left ([ptB] ! 0) ([(1, 3)] ! 0) / pt_stride ([ptB] ! 0),
                          right ([ptB] ! 0) ([(1, 3)] ! 0) / pt_stride ([ptB] ! 0)))"
    by (rule no_candidate_targets[OF evalB]) (use nc in simp_all)
  then have "[[0, 0]] ! 0 = replicate (num_classes cfgA) (0::real)
     \<and> [(4, - 2)] ! 0 = (left ptB (1, 3) / pt_stride ptB, right ptB (1, 3) / pt_stride ptB)"
    by simp
  with evalB nc show ?thesis by (intro conjI) simp_all
qed

text \<open>
  C3. For a grid point \<open>p\<close> and a segment \<open>n\<close> that is a candidate for it and whose
  duration is within \<open>1e-3\<close> of the minimum candidate duration (it exceeds the duration of
  no candidate by more than \<open>1e-3\<close>), both classification targets of \<open>p\<close> are 1 at the
  label of \<open>n\<close>: when several such segments have different labels, the target is multi-hot.
  Every entry of the primary target (length \<^verbatim>\<open>num_classes\<close>) and of the secondary
  target (length 200) lies in \<open>[0, 1]\<close>.
\<close>

theorem near_minimum_segments_contribute:
  assumes "label_points_single_video cfg pts segs labels = Inr (cls, reg, clip)"
    and "p < length pts" and "n < length segs"
    and "candidate cfg (pts ! p) (segs ! n)"
    and "\<forall>k<length segs. candidate cfg (pts ! p) (segs ! k)
           \<longrightarrow> duration (segs ! n) \<le> duration (segs ! k) + 1 / 1000"
  shows "cls ! p ! (labels ! n) = 1 \<and> clip ! p ! (labels ! n) = 1
       \<and> length (cls ! p) = num_classes cfg \<and> length (clip ! p) = 200
       \<and> (\<forall>c<num_classes cfg. 0 \<le> cls ! p ! c \<and> cls ! p ! c \<le> 1)
       \<and> (\<forall>c<200. 0 \<le> clip ! p ! c \<and> clip ! p ! c \<le> 1)"
proof -
  from assms(3) have ne: "segs \<noteq> []" by auto
  note r = label_points_Inr[OF assms(1) ne]
  from r(1-3) assms(3) have l: "labels ! n < num_classes cfg" "labels ! n < 200"
    by (simp_all add: list_all_length)
  have m: "min_len_mask (lens_row cfg (pts ! p) segs) ! n = 1"
    using assms(3-5) by (simp add: min_len_mask_nth)
  from cls_row_hit[OF l(1) r(3) assms(3) m] cls_row_hit[OF l(2) r(3) assms(3) m]
  have "cls ! p ! (labels ! n) = 1" "clip ! p ! (labels ! n) = 1"
    using r(4,6) assms(2) by simp_all
  moreover have "length (cls ! p) = num_classes cfg" "length (clip ! p) = 200"
    using r(4,6) assms(2) by (simp_all add: length_cls_row)
  moreover have "\<forall>c<num_classes cfg. 0 \<le> cls ! p ! c \<and> cls ! p ! c \<le> 1"
    using r(4) assms(2) by (simp add: cls_row_range)
  moreover have "\<forall>c<200. 0 \<le> clip ! p ! c \<and> clip ! p ! c \<le> 1"
    using r(6) assms(2) by (simp add: cls_row_range)
  ultimately show ?thesis by blast
qed

text \<open>
  The theorem at the point at time 2 and the segments \<open>(1, 3)\<close>, label 0, and
  \<open>(1, 3.0005)\<close>, label 1: both labels are set.
\<close>

theorem near_minimum_segments_contribute_witness:
  "label_points_single_video cfgA [ptA] segsA [0, 1]
     = Inr ([[1, 1]], [(1, 1)], [map (\<lambda>c. if c = 0 \<or> c = 1 then 1 else 0) [0..<200]])
   \<and> candidate cfgA ptA (segsA ! 0) \<and> candidate cfgA ptA (segsA ! 1)
   \<and> duration (segsA ! 1) \<le> duration (segsA ! 0) + 1 / 1000
   \<and> [[1, 1 :: real]] ! 0 ! ([0, 1] ! 1) = 1
   \<and> [map (\<lambda>c. if c = 0 \<or> c = 1 then 1 else 0 :: real) [0..<200]] ! 0 ! ([0, 1] ! 1) = 1"
proof -
  have c: "candidate cfgA ptA (segsA ! 0)" "candidate cfgA ptA (segsA ! 1)"
    using candA by (simp_all add: segsA_def)
  have d: "duration (segsA ! 1) \<le> duration (segsA ! 0) + 1 / 1000"
    by (simp add: segsA_def duration_def)
  have "\<forall>k<length segsA. candidate cfgA ([ptA] ! 0) (segsA ! k)
           \<longrightarrow> duration (segsA ! 1) \<le> duration (segsA ! k) + 1 / 1000"
    using d by (auto simp: segsA_def less_Suc_eq duration_def)
  from near_minimum_segments_contribute[OF evalA _ _ _ this] c
  have "[[1, 1 :: real]] ! 0 ! ([0, 1] ! 1) = 1
   \<and> [map (\<lambda>c. if c = 0 \<or> c = 1 then 1 else 0 :: real) [0..<200]] ! 0 ! ([0, 1] ! 1) = 1"
    by (simp add: segsA_def)
  with evalA c d show ?thesis by (intro conjI) simp_all
qed

text \<open>
  C5. For every grid point with a non-zero entry in its primary classification target,
  the segment whose distances become its regression target (index
  \<^verbatim>\<open>min_len_inds\<close>) is a candidate, and the larger of the two distances
  \<open>left\<close>, \<open>right\<close> to it, before the division by the stride, lies in the regression
  range of the point: \<open>reg_range_min \<le> max left right \<le> reg_range_max\<close>. For a positive
  stride the same bound holds for the stride times the larger regression target.
\<close>

theorem positive_within_regression_range:
  assumes "label_points_single_video cfg pts segs labels = Inr (cls, reg, clip)"
    and "p < length pts" and "c < num_classes cfg" and "cls ! p ! c \<noteq> 0"
  shows "min_len_inds cfg (pts ! p) segs < length segs
       \<and> candidate cfg (pts ! p) (segs ! min_len_inds cfg (pts ! p) segs)
       \<and> reg ! p = (left (pts ! p) (segs ! min_len_inds cfg (pts ! p) segs) / pt_stride (pts ! p),
                    right (pts ! p) (segs ! min_len_inds cfg (pts ! p) segs) / pt_stride (pts ! p))
       \<and> pt_reg_min (pts ! p)
           \<le> max (left (pts ! p) (segs ! min_len_inds cfg (pts ! p) segs))
                 (right (pts ! p) (segs ! min_len_inds cfg (pts ! p) segs))
       \<and> max (left (pts ! p) (segs ! min_len_inds cfg (pts ! p) segs))
             (right (pts ! p) (segs ! min_len_inds cfg (pts ! p) segs))
           \<le> pt_reg_max (pts ! p)
       \<and> (0 < pt_stride (pts ! p) \<longrightarrow>
            pt_reg_min (pts ! p) \<le> pt_stride (pts ! p) * max (fst (reg ! p)) (snd (reg ! p))
          \<and> pt_stride (pts ! p) * max (fst (reg ! p)) (snd (reg ! p)) \<le> pt_reg_max (pts ! p))"
proof -
  let ?pt = "pts ! p"
  let ?i = "min_len_inds cfg ?pt segs"
  have ne: "segs \<noteq> []"
  proof
    assume "segs = []"
    with assms show False by (auto simp: label_points_single_video_def)
  qed
  note r = label_points_Inr[OF assms(1) ne]
  from assms(2,4) r(4) have "cls_row cfg ?pt segs labels (num_classes cfg) ! c \<noteq> 0" by simp
  from cls_row_nonzero[OF assms(3) r(3) this]
  obtain k where k: "k < length segs" "min_len_mask (lens_row cfg ?pt segs) ! k = 1" by blast
  then have ck: "candidate cfg ?pt (segs ! k)"
    by (simp add: min_len_mask_nth split: if_splits)
  obtain m where mi: "torch_min (lens_row cfg ?pt segs) = (m, ?i)"
    by (cases "torch_min (lens_row cfg ?pt segs)") (simp add: min_len_inds_def)
  from torch_min_candidate[OF mi k(1) ck]
  have i: "?i < length segs" "candidate cfg ?pt (segs ! ?i)" by blast+
  have rg: "reg ! p = (left ?pt (segs ! ?i) / pt_stride ?pt, right ?pt (segs ! ?i) / pt_stride ?pt)"
    using r(5) assms(2) by (simp add: reg_row_def Let_def)
  from i(2) have rr: "pt_reg_min ?pt \<le> max (left ?pt (segs ! ?i)) (right ?pt (segs ! ?i))"
    "max (left ?pt (segs ! ?i)) (right ?pt (segs ! ?i)) \<le> pt_reg_max ?pt"
    by (simp_all add: candidate_def inside_regress_range_def)
  have "pt_stride ?pt * max (fst (reg ! p)) (snd (reg ! p))
      = max (left ?pt (segs ! ?i)) (right ?pt (segs ! ?i))" if "0 < pt_stride ?pt"
    using that by (simp add: rg max_def divide_le_cancel)
  with i rg rr show ?thesis by simp
qed

text \<open>The theorem at the point at time 2 of the two-segment input: the distances are \<open>(1, 1)\<close>.\<close>

theorem positive_within_regression_range_witness:
  "label_points_single_video cfgA [ptA] segsA [0, 1]
     = Inr ([[1, 1]], [(1, 1)], [map (\<lambda>c. if c = 0 \<or> c = 1 then 1 else 0) [0..<200]])
   \<and> [[1, 1 :: real]] ! 0 ! 0 \<noteq> 0
   \<and> min_len_inds cfgA ptA segsA = 0
   \<and> pt_reg_min ptA \<le> max (left ptA (segsA ! 0)) (right ptA (segsA ! 0))
   \<and> max (left ptA (segsA ! 0)) (right ptA (segsA ! 0)) \<le> pt_reg_max ptA"
proof -
  have "pt_reg_min ([ptA] ! 0)
           \<le> max (left ([ptA] ! 0) (segsA ! min_len_inds cfgA ([ptA] ! 0) segsA))
                 (right ([ptA] ! 0) (segsA ! min_len_inds cfgA ([ptA] ! 0) segsA))
       \<and> max (left ([ptA] ! 0) (segsA ! min_len_inds cfgA ([ptA] ! 0) segsA))
             (right ([ptA] ! 0) (segsA ! min_len_inds cfgA ([ptA] ! 0) segsA))
           \<le> pt_reg_max ([ptA] ! 0)"
  proof -
    have a: "0 < length [ptA]" "0 < num_classes cfgA" "[[1, 1 :: real]] ! 0 ! 0 \<noteq> 0"
      by (simp_all add: cfgA_def)
    from positive_within_regression_range[OF evalA a] show ?thesis by blast
  qed
  then have "pt_reg_min ptA \<le> max (left ptA (segsA ! 0)) (right ptA (segsA ! 0))
   \<and> max (left ptA (segsA ! 0)) (right ptA (segsA ! 0)) \<le> pt_reg_max ptA"
    by (simp add: indA)
  with evalA indA show ?thesis by (intro conjI) simp_all
qed

subsection \<open>Offset decoding\<close>

lemma sm0: "softmax (zeros 17) = replicate 17 (Fin (1/17))"
  by (simp add: zeros_def softmax_def fmax_def fsub_def fsum_def eval_nat_numeral)

lemma sm1: "softmax start_overflow = replicate 17 NaN"
  by (simp add: start_overflow_def zeros_def softmax_def fmax_def fsub_def fsum_def eval_nat_numeral)

lemma v34: "view_2 (zeros 34) = Inr (zeros 17, zeros 17)"
  by (simp add: view_2_def zeros_def)

lemma add0: "zip_rows fadd (zeros 17) (zeros 17) = Inr (zeros 17)"
  by (simp add: zip_rows_def zeros_def eval_nat_numeral)

lemma add1: "zip_rows fadd start_overflow (zeros 17) = Inr start_overflow"
  by (simp add: zip_rows_def start_overflow_def zeros_def eval_nat_numeral)

lemma ex1: "expectation (replicate 17 NaN) (replicate 17 (Fin (1/17))) = Inr (NaN, Fin 8)"
  by (simp add: expectation_def zip_rows_def ebind_def dot_def fsum_def eval_nat_numeral)

lemma row1: "decode_row start_overflow (zeros 17) (zeros 17, zeros 17) = Inr (NaN, Fin 8)"
  by (simp add: decode_row_def add0 add1 ebind_def sm0 sm1 ex1)

text \<open>
  C2. The claim is what the source means to do, and the source misses it for the left
  distribution: both \<^verbatim>\<open>masked_fill\<close> take the mask
  \<^verbatim>\<open>torch.isnan(pred_right_dis)\<close>, so a NaN of the left distribution at an entry
  where the right distribution is a number stays. In evaluation mode with one class, one
  location and 17 bins, zero regression outputs, zero end logits and a start window whose
  last entry (the logit of the location itself) is \<open>+inf\<close>: the left distribution is NaN
  everywhere, the right one is uniform, and the decoded pair is \<open>(NaN, 8)\<close>.
\<close>

theorem decode_offset_left_nan:
  "decode_offset_eval [zeros 34] [[start_overflow]] [[zeros 17]] = Inr [[(NaN, Fin 8)]]"
  by (simp add: decode_offset_eval_def v34 ebind_def zip_rows_def row1)

text \<open>
  These windows are the ones \<^verbatim>\<open>inference_single_video\<close> cuts for a level with one
  location, from the start logit \<open>+inf\<close> and the end logit 0.
\<close>

lemma start_windows_overflow: "start_windows 16 [PInf] = [start_overflow]"
  unfolding start_windows_def Let_def start_overflow_def zeros_def
  by (simp add: list_eq_iff_nth_eq nth_append)

lemma end_windows_zero: "end_windows 16 [Fin 0] = [zeros 17]"
  unfolding end_windows_def Let_def zeros_def
  by (simp add: list_eq_iff_nth_eq nth_Cons split: nat.splits)

text \<open>
  The mirrored input, with the \<open>+inf\<close> in the end window: the right distribution is NaN
  and both distributions are masked, so no NaN is returned.
\<close>

lemma sm2: "softmax end_overflow = replicate 17 NaN"
  by (simp add: end_overflow_def zeros_def softmax_def fmax_def fsub_def fsum_def eval_nat_numeral)

lemma add2: "zip_rows fadd end_overflow (zeros 17) = Inr end_overflow"
  by (simp add: zip_rows_def end_overflow_def zeros_def eval_nat_numeral)

lemma ex2: "expectation (replicate 17 (Fin (1/17))) (replicate 17 NaN) = Inr (Fin 0, Fin 0)"
  by (simp add: expectation_def zip_rows_def ebind_def dot_def fsum_def eval_nat_numeral)

lemma row2: "decode_row (zeros 17) end_overflow (zeros 17, zeros 17) = Inr (Fin 0, Fin 0)"
  by (simp add: decode_row_def add0 add2 ebind_def sm0 sm2 ex2)

lemma decode_offset_right_nan_masked:
  "decode_offset_eval [zeros 34] [[zeros 17]] [[end_overflow]] = Inr [[(Fin 0, Fin 0)]]"
  by (simp add: decode_offset_eval_def v34 ebind_def zip_rows_def row2)

subsection \<open>Inference scores\<close>

lemma zip_rows_Inr:
  "zip_rows f xs ys = Inr zs \<longleftrightarrow> length xs = length ys \<and> zs = map2 f xs ys"
  by (auto simp: zip_rows_def)

lemma foldl_max_Max: "foldl max x xs = Max (set (x # xs))"
proof (induction xs arbitrary: x)
  case Nil
  then show ?case by simp
next
  case (Cons y ys)
  have "Max (insert x (insert y (set ys))) = max x (Max (insert y (set ys)))"
    by (rule Max_insert) auto
  also have "\<dots> = Max (insert (max x y) (set ys))"
    by (cases "ys = []") (simp_all add: max.assoc)
  finally show ?case using Cons.IH[of "max x y"] by simp
qed

lemma row_max_Inr: "row_max row = Inr m \<Longrightarrow> row \<noteq> [] \<and> m = Max (set row)"
  by (cases row) (auto simp: row_max_def foldl_max_Max simp del: foldl_Cons)

lemma nth_concat_uniform:
  "list_all (\<lambda>row. length row = n) xss \<Longrightarrow> t < length xss \<Longrightarrow> c < n
     \<Longrightarrow> concat xss ! (t * n + c) = xss ! t ! c"
proof (induction xss arbitrary: t)
  case Nil
  then show ?case by simp
next
  case (Cons xs xss)
  show ?case
  proof (cases t)
    case 0
    with Cons.prems show ?thesis by (simp add: nth_append)
  next
    case (Suc t')
    with Cons.prems have "concat xss ! (t' * n + c) = xss ! t' ! c"
      by (intro Cons.IH) auto
    with Suc Cons.prems show ?thesis
      by (simp add: nth_append add.assoc)
  qed
qed

lemma length_concat_uniform:
  "list_all (\<lambda>row. length row = n) xss \<Longrightarrow> length (concat xss) = length xss * n"
  by (induction xss) auto

text \<open>
  C6. For one pyramid level with \<^verbatim>\<open>cls_i\<close> of shape \<open>[T, C]\<close>: the flattened score
  of location \<open>t\<close> and primary class \<open>c\<close> (index \<open>t * C + c\<close>) is
  \<open>0.7 * sigmoid (cls_i[t][c]) + 0.3 * sigmoid (max (clip_i[t]))\<close> where the mask holds, the
  secondary term being the same for every class \<open>c\<close>, and it is 0 where the mask does
  not hold.
\<close>

theorem combined_score:
  assumes "pred_prob cls_i clip_i mask_i = Inr pp"
    and "list_all (\<lambda>row. length row = C) cls_i"
    and "t < length cls_i" and "c < C"
  shows "clip_i ! t \<noteq> []
       \<and> length pp = length cls_i * C
       \<and> pp ! (t * C + c) =
           (if mask_i ! t
            then 0.7 * sigmoid (cls_i ! t ! c) + 0.3 * sigmoid (Max (set (clip_i ! t)))
            else 0)"
proof -
  from assms(1) obtain cp masked where
    cp: "combined_prob cls_i clip_i = Inr cp"
    and mk: "zip_rows (\<lambda>row m. map (\<lambda>x. x * (if m then 1 else 0)) row) cp mask_i = Inr masked"
    and pp: "pp = concat masked"
    unfolding pred_prob_def by (auto elim!: ebind_InrE)
  from cp obtain clip_j where
    cj: "emap row_max clip_i = Inr clip_j"
    and z: "zip_rows (\<lambda>cls_row clip_max.
           map (\<lambda>x. inference_alpha * sigmoid x + inference_beta * sigmoid clip_max) cls_row)
         cls_i clip_j = Inr cp"
    unfolding combined_prob_def by (auto elim!: ebind_InrE)
  from z have l1: "length cls_i = length clip_j"
    and cpe: "cp = map2 (\<lambda>cls_row clip_max.
           map (\<lambda>x. inference_alpha * sigmoid x + inference_beta * sigmoid clip_max) cls_row) cls_i clip_j"
    by (simp_all add: zip_rows_Inr)
  from emap_Inr[OF cj] l1 assms(3) have l2: "length clip_j = length clip_i"
    and rm: "row_max (clip_i ! t) = Inr (clip_j ! t)" by simp_all
  from row_max_Inr[OF rm] have ne: "clip_i ! t \<noteq> []" and mx: "clip_j ! t = Max (set (clip_i ! t))"
    by simp_all
  from mk have l3: "length cp = length mask_i"
    and me: "masked = map2 (\<lambda>row m. map (\<lambda>x. x * (if m then 1 else 0)) row) cp mask_i"
    by (simp_all add: zip_rows_Inr)
  have lcp: "length cp = length cls_i" using cpe l1 by simp
  have lm: "length masked = length cls_i" using me l3 lcp by simp
  have rows: "list_all (\<lambda>row. length row = C) masked"
    using assms(2) l1 l3 lcp unfolding me cpe list_all_length by simp
  have "masked ! t ! c = (if mask_i ! t
            then 0.7 * sigmoid (cls_i ! t ! c) + 0.3 * sigmoid (Max (set (clip_i ! t)))
            else 0)"
  proof -
    from assms(2,3) have lc: "length (cls_i ! t) = C" by (simp add: list_all_length)
    have "masked ! t = map (\<lambda>x. x * (if mask_i ! t then 1 else 0)) (cp ! t)"
      using me l3 lcp assms(3) by simp
    moreover have "cp ! t = map (\<lambda>x. inference_alpha * sigmoid x + inference_beta * sigmoid (clip_j ! t)) (cls_i ! t)"
      using cpe l1 assms(3) by simp
    ultimately show ?thesis
      using lc assms(4) mx by (simp add: inference_alpha_def inference_beta_def)
  qed
  moreover have "pp ! (t * C + c) = masked ! t ! c"
    unfolding pp using rows lm assms(3,4) by (intro nth_concat_uniform) simp_all
  moreover have "length pp = length cls_i * C"
    unfolding pp using length_concat_uniform[OF rows] lm by simp
  ultimately show ?thesis using ne by simp
qed

lemma pp_eval: "pred_prob [[0, 0], [0, 0]] [[- 1, 0, - 2], [0, - 3, - 1]] [True, False]
  = Inr [0.5, 0.5, 0, 0]"
  by (simp add: pred_prob_def combined_prob_def row_max_def ebind_def zip_rows_def sigmoid_def
      inference_alpha_def inference_beta_def)

text \<open>
  The theorem at two locations with two classes and three secondary classes, the second
  location masked out.
\<close>

theorem combined_score_witness:
  "pred_prob [[0, 0], [0, 0]] [[- 1, 0, - 2], [0, - 3, - 1]] [True, False] = Inr [0.5, 0.5, 0, 0]
   \<and> [0.5, 0.5, 0, 0 :: real] ! (0 * 2 + 1) = 0.7 * sigmoid 0 + 0.3 * sigmoid (Max {- 1, 0, - 2})
   \<and> [0.5, 0.5, 0, 0 :: real] ! (1 * 2 + 0) = 0"
proof -
  have r: "list_all (\<lambda>row. length row = 2) [[0, 0], [0, 0 :: real]]" by simp
  have a: "[0.5, 0.5, 0, 0 :: real] ! (0 * 2 + 1) =
           (if [True, False] ! 0
            then 0.7 * sigmoid ([[0, 0], [0, 0]] ! 0 ! 1)
               + 0.3 * sigmoid (Max (set ([[- 1, 0, - 2], [0, - 3, - 1]] ! 0)))
            else 0)"
    using combined_score[OF pp_eval r, of 0 1] by simp
  have b: "[0.5, 0.5, 0, 0 :: real] ! (1 * 2 + 0) =
           (if [True, False] ! 1
            then 0.7 * sigmoid ([[0, 0], [0, 0]] ! 1 ! 0)
               + 0.3 * sigmoid (Max (set ([[- 1, 0, - 2], [0, - 3, - 1]] ! 1)))
            else 0)"
    using combined_score[OF pp_eval r, of 1 0] by simp
  from a have a': "[0.5, 0.5, 0, 0 :: real] ! (0 * 2 + 1) = 0.7 * sigmoid 0 + 0.3 * sigmoid (Max {- 1, 0, - 2})"
    by simp
  from b have b': "[0.5, 0.5, 0, 0 :: real] ! (1 * 2 + 0) = 0" by simp
  from pp_eval a' b' show ?thesis by (intro conjI)
qed

subsection \<open>The forward pass\<close>

lemma cf_eval: "concatenated_feats small_module small_video = Inr [[2, 4, 6], [0, 2, 1], [0, 0, 2]]"
  by (simp add: concatenated_feats_def small_module_def small_video_def getitem_def ebind_def
      ncols_def transpose01_def residual_map_def linear_apply_def zip_rows_def relu_def
      eval_nat_numeral)

lemma fc_eval: "forward_concat small_module [small_video]
   = (None, [small_video(''concatenated_feats'' \<mapsto> PMat [[2, 4, 6], [0, 2, 1], [0, 0, 2]])])"
  by (simp add: cf_eval)

lemma forward_concat_ok:
  "forward_concat self vl = (None, vl') \<Longrightarrow>
     length vl' = length vl \<and>
     (\<forall>i<length vl. \<exists>c. concatenated_feats self (vl ! i) = Inr c
          \<and> vl' ! i = (vl ! i)(''concatenated_feats'' \<mapsto> PMat c))"
proof (induction vl arbitrary: vl')
  case Nil
  then show ?case by simp
next
  case (Cons v vs)
  from Cons.prems obtain c rest' where c: "concatenated_feats self v = Inr c"
    and r: "forward_concat self vs = (None, rest')"
    and e: "vl' = v(''concatenated_feats'' \<mapsto> PMat c) # rest'"
    by (auto split: sum.splits prod.splits)
  from Cons.IH[OF r] c e show ?case
    by (auto simp: nth_Cons split: nat.splits)
qed

text \<open>
  C10. When the first loop of \<^verbatim>\<open>forward\<close> runs through, every record of the
  caller's \<^verbatim>\<open>video_list\<close> holds the key \<^verbatim>\<open>concatenated_feats\<close>, bound to the
  concatenation of the residual-projected \<^verbatim>\<open>feats\<close> and \<^verbatim>\<open>clip_feats\<close>; nothing
  else of the record changes, and a record that did not hold the key before is no longer
  the record the caller passed.
\<close>

theorem forward_mutates_input:
  assumes "forward_concat self video_list = (None, video_list')"
    and "i < length video_list"
  shows "length video_list' = length video_list
       \<and> (\<exists>c. concatenated_feats self (video_list ! i) = Inr c
              \<and> video_list' ! i = (video_list ! i)(''concatenated_feats'' \<mapsto> PMat c)
              \<and> (video_list' ! i) ''concatenated_feats'' = Some (PMat c))
       \<and> dom (video_list' ! i) = insert ''concatenated_feats'' (dom (video_list ! i))
       \<and> (''concatenated_feats'' \<notin> dom (video_list ! i) \<longrightarrow> video_list' ! i \<noteq> video_list ! i)"
proof -
  from forward_concat_ok[OF assms(1)] assms(2)
  obtain c where c: "concatenated_feats self (video_list ! i) = Inr c"
    and e: "video_list' ! i = (video_list ! i)(''concatenated_feats'' \<mapsto> PMat c)"
    and l: "length video_list' = length video_list"
    by blast
  from e have g: "(video_list' ! i) ''concatenated_feats'' = Some (PMat c)" by simp
  from e have d: "dom (video_list' ! i) = insert ''concatenated_feats'' (dom (video_list ! i))"
    by simp
  have "video_list' ! i \<noteq> video_list ! i" if "''concatenated_feats'' \<notin> dom (video_list ! i)"
  proof
    assume "video_list' ! i = video_list ! i"
    with g have "(video_list ! i) ''concatenated_feats'' = Some (PMat c)" by simp
    with that show False by blast
  qed
  with c e l g d show ?thesis by blast
qed

text \<open>
  The theorem at one video with two primary channels, one clip channel and three time
  steps.
\<close>

theorem forward_mutates_input_witness:
  "forward_concat small_module [small_video]
     = (None, [small_video(''concatenated_feats'' \<mapsto> PMat [[2, 4, 6], [0, 2, 1], [0, 0, 2]])])
   \<and> small_video ''concatenated_feats'' = None
   \<and> [small_video(''concatenated_feats'' \<mapsto> PMat [[2, 4, 6], [0, 2, 1], [0, 0, 2]])] ! 0
       \<noteq> [small_video] ! 0"
proof -
  have n: "small_video ''concatenated_feats'' = None" by (simp add: small_video_def)
  then have nd: "''concatenated_feats'' \<notin> dom ([small_video] ! 0)" by (simp add: domIff)
  have "''concatenated_feats'' \<notin> dom ([small_video] ! 0) \<longrightarrow>
      [small_video(''concatenated_feats'' \<mapsto> PMat [[2, 4, 6], [0, 2, 1], [0, 0, 2]])] ! 0
       \<noteq> [small_video] ! 0"
    using forward_mutates_input[OF fc_eval, of 0] by blast
  with nd have "[small_video(''concatenated_feats'' \<mapsto> PMat [[2, 4, 6], [0, 2, 1], [0, 0, 2]])] ! 0
       \<noteq> [small_video] ! 0" by blast
  with fc_eval n show ?thesis by (intro conjI)
qed

subsection \<open>Losses\<close>

lemma ebind_Inr_iff: "ebind m f = Inr y \<longleftrightarrow> (\<exists>x. m = Inr x \<and> f x = Inr y)"
  by (cases m) (auto simp: ebind_def)

lemma zip_rows_Inr_iff:
  "zip_rows f xs ys = Inr zs \<longleftrightarrow> length xs = length ys \<and> zs = map2 f xs ys"
  by (auto simp: zip_rows_def)

lemma emap_zip_rows:
  "emap (\<lambda>(xs, ys). zip_rows f xs ys) ps = Inr zss \<Longrightarrow>
     list_all (\<lambda>(xs, ys). length xs = length ys) ps \<and> zss = map (\<lambda>(xs, ys). map2 f xs ys) ps"
proof (induction ps arbitrary: zss)
  case Nil
  then show ?case by simp
next
  case (Cons p ps)
  obtain xs ys where p: "p = (xs, ys)" by (cases p)
  from Cons.prems p obtain z zs where z: "zip_rows f xs ys = Inr z"
    and r: "emap (\<lambda>(xs, ys). zip_rows f xs ys) ps = Inr zs" and e: "zss = z # zs"
    by (auto simp: ebind_Inr_iff)
  from Cons.IH[OF r] z e p show ?case by (simp add: zip_rows_Inr_iff)
qed

lemma zip_rows2_Inr:
  assumes "zip_rows2 f xss yss = Inr zss"
  shows "length xss = length yss"
    and "list_all (\<lambda>(xs, ys). length xs = length ys) (zip xss yss)"
    and "zss = map2 (map2 f) xss yss"
proof -
  from assms obtain ps where ps: "zip_rows (\<lambda>xs ys. (xs, ys)) xss yss = Inr ps"
    and em: "emap (\<lambda>(xs, ys). zip_rows f xs ys) ps = Inr zss"
    unfolding zip_rows2_def ebind_Inr_iff by blast
  from ps have l: "length xss = length yss" and pz: "ps = zip xss yss"
    by (simp_all add: zip_rows_Inr_iff)
  from emap_zip_rows[OF em] pz l
  show "length xss = length yss"
    and "list_all (\<lambda>(xs, ys). length xs = length ys) (zip xss yss)"
    and "zss = map2 (map2 f) xss yss"
    by simp_all
qed

lemma concat_zip_rows:
  "length xss = length yss \<Longrightarrow> list_all (\<lambda>(xs, ys). length xs = length ys) (zip xss yss)
     \<Longrightarrow> concat (map2 zip xss yss) = zip (concat xss) (concat yss)"
proof (induction xss yss rule: list_induct2)
  case Nil
  then show ?case by simp
next
  case (Cons x xs y ys)
  then show ?case by (simp add: zip_append)
qed

lemma select2_Inr:
  assumes "select2 m x = Inr r"
  shows "r = map snd (filter fst (zip (concat m) (concat x)))"
    and "length r = count_true m"
    and "length (concat x) = length (concat m)"
proof -
  from assms obtain mx where mx: "zip_rows2 (\<lambda>m v. (m, v)) m x = Inr mx"
    and r: "r = map snd (filter fst (concat mx))"
    unfolding select2_def ebind_Inr_iff by auto
  note z = zip_rows2_Inr[OF mx]
  have "map2 (map2 (\<lambda>m v. (m, v))) m x = map2 zip m x"
    by (rule map_cong) auto
  with z have c: "concat mx = zip (concat m) (concat x)"
    by (simp add: concat_zip_rows)
  have l: "length (concat m) = length (concat x)"
    using z(1,2)
  proof (induction m x rule: list_induct2)
    case Nil
    then show ?case by simp
  next
    case (Cons a as b bs)
    then show ?case by simp
  qed
  show "r = map snd (filter fst (zip (concat m) (concat x)))" using r c by simp
  have "length (filter fst (zip ms xs)) = length (filter (\<lambda>b. b) ms)"
    if "length ms = length xs" for ms :: "bool list" and xs :: "'a list"
    using that by (induction ms xs rule: list_induct2) auto
  with l r c show "length r = count_true m" by (simp add: count_true_def)
  from l show "length (concat x) = length (concat m)" by simp
qed

lemma select2_none:
  assumes "select2 m x = Inr r" and "count_true m = 0"
  shows "r = []"
  using select2_Inr(2)[OF assms(1)] assms(2) by simp

lemma positive_offsets_Inr:
  assumes "positive_offsets decoded pm gt_cls gt_offsets = Inr (pred, gt')"
  shows "pred = map snd (filter fst (zip
             (map (\<lambda>x. x \<noteq> 0) (concat (map snd (filter fst (zip (concat pm) (concat gt_cls))))))
             (concat (map snd (filter fst (zip (concat pm) (concat decoded)))))))"
    and "count_true pm = 0 \<Longrightarrow> pred = []"
proof -
  from assms obtain decoded_pos gt_cls_pos where
    d: "select2 pm decoded = Inr decoded_pos"
    and g: "select2 pm gt_cls = Inr gt_cls_pos"
    and p: "select2 (map (map (\<lambda>x. x \<noteq> 0)) gt_cls_pos) decoded_pos = Inr pred"
    unfolding positive_offsets_def ebind_Inr_iff by auto
  from select2_Inr(1)[OF p] select2_Inr(1)[OF d] select2_Inr(1)[OF g]
  show "pred = map snd (filter fst (zip
             (map (\<lambda>x. x \<noteq> 0) (concat (map snd (filter fst (zip (concat pm) (concat gt_cls))))))
             (concat (map snd (filter fst (zip (concat pm) (concat decoded)))))))"
    by (simp add: map_concat)
  show "pred = []" if "count_true pm = 0"
  proof -
    from select2_none[OF d that] have "decoded_pos = []" .
    with select2_Inr(1)[OF p] show ?thesis by simp
  qed
qed

lemma losses_InrE:
  assumes "losses fns self loss_normalizer gt_cls2_labels clip_cls_logits fpn_masks out_cls_logits
     out_offsets gt_cls_labels gt_offsets out_start out_end = Inr (out, norm')"
  obtains valid_mask out_start_logits out_end_logits gt_cls pm decoded_offsets pred_offsets gt_offsets'
      cls_l clip_l reg_l where
    "cat1 fpn_masks = Inr valid_mask"
    "neighbour_logits (num_bins self) out_start out_end = Inr (out_start_logits, out_end_logits)"
    "stack gt_cls_labels = Inr gt_cls"
    "pos_mask gt_cls valid_mask = Inr pm"
    "decode_offset_training out_offsets out_start_logits out_end_logits = Inr decoded_offsets"
    "positive_offsets decoded_offsets pm gt_cls gt_offsets = Inr (pred_offsets, gt_offsets')"
    "length pred_offsets = length gt_offsets'"
    "norm' = update_loss_normalizer (loss_normalizer_momentum self) loss_normalizer (count_true pm)"
    "reg_loss_of fns (count_true pm) norm' pred_offsets gt_offsets' = Inr reg_l"
    "out = \<lparr>cls_loss = cls_l, reg_loss = reg_l, clip_loss = clip_l,
            final_loss = final_loss_of cls_l clip_l reg_l
              (loss_weight_of (train_loss_weight self) cls_l reg_l)\<rparr>"
proof -
  from assms obtain valid_mask nl gt_cls pm decoded_offsets po iou_rate reg_l cls_l clip_l where
    "cat1 fpn_masks = Inr valid_mask"
    "neighbour_logits (num_bins self) out_start out_end = Inr nl"
    "stack gt_cls_labels = Inr gt_cls"
    "pos_mask gt_cls valid_mask = Inr pm"
    "decode_offset_training out_offsets (fst nl) (snd nl) = Inr decoded_offsets"
    "positive_offsets decoded_offsets pm gt_cls gt_offsets = Inr po"
    "zip_rows (ctr_giou_loss_1d fns) (fst po) (snd po) = Inr iou_rate"
    "reg_loss_of fns (count_true pm)
       (update_loss_normalizer (loss_normalizer_momentum self) loss_normalizer (count_true pm))
       (fst po) (snd po) = Inr reg_l"
    "(out, norm') = (\<lparr>cls_loss = cls_l, reg_loss = reg_l, clip_loss = clip_l,
            final_loss = final_loss_of cls_l clip_l reg_l
              (loss_weight_of (train_loss_weight self) cls_l reg_l)\<rparr>,
          update_loss_normalizer (loss_normalizer_momentum self) loss_normalizer (count_true pm))"
    unfolding losses_def Let_def case_prod_beta ebind_Inr_iff sum.inject
    by (elim exE conjE) blast
  then show thesis
    by (intro that[of valid_mask "fst nl" "snd nl" gt_cls pm decoded_offsets "fst po" "snd po" reg_l cls_l clip_l])
       (simp_all add: zip_rows_Inr_iff)
qed

text \<open>
  C8. When \<^verbatim>\<open>losses\<close> returns: \<^verbatim>\<open>pred_offsets\<close> holds the decoded offsets of the
  positive locations only (one row for each positive location and each class with a
  non-zero target there). With no positive location it is empty and the regression loss
  is \<open>0 * pred_offsets.sum()\<close>, which is 0; otherwise the regression loss is the sum of
  the distance-IoU losses of these rows, divided by the updated loss normalizer.
\<close>

theorem regression_loss:
  assumes "losses fns self loss_normalizer gt_cls2_labels clip_cls_logits fpn_masks out_cls_logits
     out_offsets gt_cls_labels gt_offsets out_start out_end = Inr (out, norm')"
  shows "\<exists>valid_mask gt_cls pm out_start_logits out_end_logits decoded_offsets pred_offsets gt_offsets'.
      cat1 fpn_masks = Inr valid_mask
    \<and> stack gt_cls_labels = Inr gt_cls
    \<and> pos_mask gt_cls valid_mask = Inr pm
    \<and> neighbour_logits (num_bins self) out_start out_end = Inr (out_start_logits, out_end_logits)
    \<and> decode_offset_training out_offsets out_start_logits out_end_logits = Inr decoded_offsets
    \<and> positive_offsets decoded_offsets pm gt_cls gt_offsets = Inr (pred_offsets, gt_offsets')
    \<and> pred_offsets = map snd (filter fst (zip
             (map (\<lambda>x. x \<noteq> 0) (concat (map snd (filter fst (zip (concat pm) (concat gt_cls))))))
             (concat (map snd (filter fst (zip (concat pm) (concat decoded_offsets)))))))
    \<and> length pred_offsets = length gt_offsets'
    \<and> norm' = update_loss_normalizer (loss_normalizer_momentum self) loss_normalizer (count_true pm)
    \<and> (if count_true pm = 0
        then pred_offsets = []
           \<and> reg_loss out = fmul (Fin 0) (fsum (concat (map (\<lambda>(l, r). [l, r]) pred_offsets)))
           \<and> reg_loss out = Fin 0
        else reg_loss out
               = fdiv (fsum (map2 (ctr_diou_loss_1d fns) pred_offsets gt_offsets')) (Fin norm'))"
proof -
  from assms obtain valid_mask out_start_logits out_end_logits gt_cls pm decoded_offsets
      pred_offsets gt_offsets' cls_l clip_l reg_l where
    a: "cat1 fpn_masks = Inr valid_mask"
      "neighbour_logits (num_bins self) out_start out_end = Inr (out_start_logits, out_end_logits)"
      "stack gt_cls_labels = Inr gt_cls"
      "pos_mask gt_cls valid_mask = Inr pm"
      "decode_offset_training out_offsets out_start_logits out_end_logits = Inr decoded_offsets"
    and po: "positive_offsets decoded_offsets pm gt_cls gt_offsets = Inr (pred_offsets, gt_offsets')"
    and len: "length pred_offsets = length gt_offsets'"
    and n: "norm' = update_loss_normalizer (loss_normalizer_momentum self) loss_normalizer (count_true pm)"
    and r: "reg_loss_of fns (count_true pm) norm' pred_offsets gt_offsets' = Inr reg_l"
    and out: "reg_loss out = reg_l"
    by (rule losses_InrE) simp
  note pc = positive_offsets_Inr[OF po]
  have "if count_true pm = 0
        then pred_offsets = []
           \<and> reg_loss out = fmul (Fin 0) (fsum (concat (map (\<lambda>(l, r). [l, r]) pred_offsets)))
           \<and> reg_loss out = Fin 0
        else reg_loss out
               = fdiv (fsum (map2 (ctr_diou_loss_1d fns) pred_offsets gt_offsets')) (Fin norm')"
  proof (cases "count_true pm = 0")
    case True
    with pc(2) have e: "pred_offsets = []" by simp
    from r True out have "reg_loss out = fmul (Fin 0) (fsum (concat (map (\<lambda>(l, r). [l, r]) pred_offsets)))"
      by (simp add: reg_loss_of_def)
    with e True show ?thesis by (simp add: fsum_def)
  next
    case False
    with r out len show ?thesis
      by (simp add: reg_loss_of_def zip_rows_def ebind_def)
  qed
  with a po pc(1) len n show ?thesis by blast
qed

text \<open>
  C7, amended. The final loss is \<open>0.3 * cls_loss + 0.4 * clip_loss + 0.3 * reg_loss * w\<close>,
  where \<open>w\<close> is the configured \<^verbatim>\<open>train_loss_weight\<close> when that is positive and
  otherwise the classification loss divided by the larger of the regression loss and
  0.01 (\<^verbatim>\<open>max(reg_loss.item(), 0.01)\<close>). In floats with their special values, and
  for finite losses in the reals.
\<close>

theorem final_loss_combination:
  assumes "losses fns self loss_normalizer gt_cls2_labels clip_cls_logits fpn_masks out_cls_logits
     out_offsets gt_cls_labels gt_offsets out_start out_end = Inr (out, norm')"
  shows "final_loss out =
           fadd (fadd (fmul (Fin 0.3) (cls_loss out)) (fmul (clip_loss out) (Fin 0.4)))
                (fmul (fmul (reg_loss out)
                         (if train_loss_weight self > 0 then Fin (train_loss_weight self)
                          else fdiv (cls_loss out)
                                 (if flt (reg_loss out) (Fin 0.01) then Fin 0.01 else reg_loss out)))
                      (Fin 0.3))
       \<and> (\<forall>c k r. cls_loss out = Fin c \<and> clip_loss out = Fin k \<and> reg_loss out = Fin r \<longrightarrow>
             final_loss out =
               Fin (0.3 * c + 0.4 * k
                    + 0.3 * (r * (if train_loss_weight self > 0 then train_loss_weight self
                                  else c / max r 0.01))))"
proof -
  from assms obtain cls_l clip_l reg_l where
    out: "out = \<lparr>cls_loss = cls_l, reg_loss = reg_l, clip_loss = clip_l,
            final_loss = final_loss_of cls_l clip_l reg_l
              (loss_weight_of (train_loss_weight self) cls_l reg_l)\<rparr>"
    by (rule losses_InrE)
  have a: "final_loss out =
           fadd (fadd (fmul (Fin 0.3) (cls_loss out)) (fmul (clip_loss out) (Fin 0.4)))
                (fmul (fmul (reg_loss out)
                         (if train_loss_weight self > 0 then Fin (train_loss_weight self)
                          else fdiv (cls_loss out)
                                 (if flt (reg_loss out) (Fin 0.01) then Fin 0.01 else reg_loss out)))
                      (Fin 0.3))"
    by (simp add: out final_loss_of_def loss_weight_of_def pymax_def Let_def)
  have "final_loss out =
               Fin (0.3 * c + 0.4 * k
                    + 0.3 * (r * (if train_loss_weight self > 0 then train_loss_weight self
                                  else c / max r 0.01)))"
    if h: "cls_loss out = Fin c" "clip_loss out = Fin k" "reg_loss out = Fin r" for c k r
  proof (cases "train_loss_weight self > 0")
    case True
    then show ?thesis unfolding a h by simp
  next
    case w: False
    show ?thesis
    proof (cases "r < 0.01")
      case True
      then have "max r 0.01 = 0.01" by simp
      with True w show ?thesis unfolding a h by simp
    next
      case False
      then have "max r 0.01 = r" "r \<noteq> 0" by simp_all
      with False w show ?thesis unfolding a h by simp
    qed
  qed
  with a show ?thesis by blast
qed

lemma fsum_replicate: "foldl fadd (Fin a) (replicate n (Fin c)) = Fin (a + real n * c)"
  by (induction n arbitrary: a) (simp_all add: algebra_simps)

lemma fsum_replicate_Fin: "fsum (replicate n (Fin c)) = Fin (real n * c)"
  by (simp add: fsum_def fsum_replicate)

lemma map2_const: "length xs = length ys \<Longrightarrow> map2 (\<lambda>x y. c) xs ys = replicate (length xs) c"
  by (induction xs ys rule: list_induct2) auto

lemma l_valid: "cat1 [[[True]]] = Inr [[True]]"
  by (simp add: cat1_def)

lemma l_windows: "neighbour_logits 16 [[[[Fin 0]]]] [[[[Fin 0]]]] = Inr ([[[[zeros 17]]]], [[[[zeros 17]]]])"
proof -
  have a: "start_windows 16 [Fin 0] = [zeros 17]"
    unfolding start_windows_def Let_def zeros_def
    by (simp add: list_eq_iff_nth_eq nth_append)
  have b: "end_windows 16 [Fin 0] = [zeros 17]"
    unfolding end_windows_def Let_def zeros_def
    by (simp add: list_eq_iff_nth_eq nth_Cons split: nat.splits)
  show ?thesis
    by (simp add: same_shape3_def ebind_def a b permute_ct_def)
qed

lemma ex8: "expectation (replicate 17 (Fin (1/17))) (replicate 17 (Fin (1/17))) = Inr (Fin 8, Fin 8)"
  by (simp add: expectation_def zip_rows_def ebind_def dot_def fsum_def eval_nat_numeral)

lemma row8: "decode_row (zeros 17) (zeros 17) (zeros 17, zeros 17) = Inr (Fin 8, Fin 8)"
  by (simp add: decode_row_def add0 ebind_def sm0 ex8)

lemma l_decode: "decode_offset_training [[[zeros 34]]] [[[[zeros 17]]]] [[[[zeros 17]]]] = Inr [[[(Fin 8, Fin 8)]]]"
  by (simp add: decode_offset_training_def cat1_def ebind_def v34 zip_rows_def row8)


lemma l_clip_pos:
  "zip_rows2 (sigmoid_focal_loss fns1) [replicate 200 (Fin 0)] (smooth 0 200 [one_hot 200 0])
     = Inr [replicate 200 (Fin 1)]"
  by (simp add: zip_rows2_def zip_rows_def ebind_def smooth_def one_hot_def fns1_def map2_const)

lemma l_clip_neg:
  "zip_rows2 (sigmoid_focal_loss fns1) [replicate 200 (Fin 0)] (smooth 0 200 [replicate 200 0])
     = Inr [replicate 200 (Fin 1)]"
  by (simp add: zip_rows2_def zip_rows_def ebind_def smooth_def fns1_def map2_const)

lemma l_pos1: "positive_offsets [[[(Fin 8, Fin 8)]]] [[True]] [[[1]]] [[(1, 1)]]
    = Inr ([(Fin 8, Fin 8)], [(1, 1)])"
  by (simp add: positive_offsets_def select2_def zip_rows2_def zip_rows_def ebind_def stack_def)

lemma l_pos0: "positive_offsets [[[(Fin 8, Fin 8)]]] [[False]] [[[0]]] [[(1, 1)]]
    = Inr ([], [])"
  by (simp add: positive_offsets_def select2_def zip_rows2_def zip_rows_def ebind_def stack_def)

lemma self1_simps:
  "num_bins self1 = 16" "num_classes self1 = 1" "train_label_smoothing self1 = 0"
  "train_loss_weight self1 = - 1" "loss_normalizer_momentum self1 = 0.9"
  by (simp_all add: self1_def)

lemma sel_clip_pos: "select2 [[True]] clip_target_pos = Inr [one_hot 200 0]"
  by (simp add: clip_target_pos_def select2_def zip_rows2_def zip_rows_def ebind_def)

lemma sel_clip_neg: "select2 [[True]] clip_target_neg = Inr [replicate 200 0]"
  by (simp add: clip_target_neg_def select2_def zip_rows2_def zip_rows_def ebind_def)

lemma sel_clip_logits: "ebind (cat1 clip_logits1) (select2 [[True]]) = Inr [replicate 200 (Fin 0)]"
  by (simp add: clip_logits1_def cat1_def select2_def zip_rows2_def zip_rows_def ebind_def)

lemma stack_clip: "stack clip_target_pos = Inr clip_target_pos" "stack clip_target_neg = Inr clip_target_neg"
  by (simp_all add: stack_def clip_target_pos_def clip_target_neg_def)

lemma ebind_Inr: "ebind (Inr x) f = f x"
  by (simp add: ebind_def)

lemma l_stack1: "stack [[[1::real]]] = Inr [[[1]]]" "stack [[[0::real]]] = Inr [[[0]]]"
  by (simp_all add: stack_def)

lemma l_pm: "pos_mask [[[1]]] [[True]] = Inr [[True]]" "pos_mask [[[0]]] [[True]] = Inr [[False]]"
  by (simp_all add: pos_mask_def zip_rows2_def zip_rows_def ebind_def)

lemma l_cnt: "count_true [[True]] = 1" "count_true [[False]] = 0"
  by (simp_all add: count_true_def)

lemma l_sel_gt: "select2 [[True]] [[[1::real]]] = Inr [[1]]" "select2 [[True]] [[[0::real]]] = Inr [[0]]"
  by (simp_all add: select2_def zip_rows2_def zip_rows_def ebind_def)

lemma l_cls_logits: "ebind (cat1 [[[[Fin 0]]]]) (select2 [[True]]) = Inr [[Fin 0]]"
  by (simp add: cat1_def select2_def zip_rows2_def zip_rows_def ebind_def)

lemma l_focal: "zip_rows2 (sigmoid_focal_loss fns1) [[Fin 0]] (smooth 0 1 [[1]]) = Inr [[Fin 1]]"
  "zip_rows2 (sigmoid_focal_loss fns1) [[Fin 0]] (smooth 0 1 [[0]]) = Inr [[Fin 1]]"
  by (simp_all add: zip_rows2_def zip_rows_def ebind_def smooth_def fns1_def)

lemma l_giou: "zip_rows (ctr_giou_loss_1d fns1) [(Fin 8, Fin 8)] [(1, 1)] = Inr [Fin 0.5]"
  "zip_rows (ctr_giou_loss_1d fns1) [] [] = Inr []"
  by (simp_all add: zip_rows_def fns1_def)

lemma l_couple: "couple_iou [[Fin 1]] (map (map (\<lambda>x. x > 0 / (real 1 + 1))) (smooth 0 1 [[1]])) [Fin 0.5] = Inr [Fin 0.5]"
  "couple_iou [[Fin 1]] (map (map (\<lambda>x. x > 0 / (real 1 + 1))) (smooth 0 1 [[0]])) [] = Inr [Fin 1]"
  by (simp_all add: couple_iou_def smooth_def count_true_def fsub_def)

lemma l_reg: "reg_loss_of fns1 1 n [(Fin 8, Fin 8)] [(1, 1)] = Inr (fdiv (Fin 0.5) (Fin n))"
  "reg_loss_of fns1 0 n [] [] = Inr (Fin 0)"
  by (simp_all add: reg_loss_of_def zip_rows_def ebind_def fns1_def fsum_def)

lemma l_norm: "update_loss_normalizer 0.9 100 1 = 90.1" "update_loss_normalizer 0.9 100 0 = 90.1"
  by (simp_all add: update_loss_normalizer_def)

lemma losses_eval_pos:
  "losses fns1 self1 100 clip_target_pos clip_logits1 [[[True]]] [[[[Fin 0]]]] [[[zeros 34]]]
      [[[1]]] [[(1, 1)]] [[[[Fin 0]]]] [[[[Fin 0]]]]
   = Inr (\<lparr>cls_loss = Fin (5 / 901), reg_loss = Fin (5 / 901), clip_loss = Fin (2000 / 901),
            final_loss = Fin (0.3 * (5 / 901) + 0.4 * (2000 / 901) + 0.3 * ((5 / 901) * (500 / 901)))\<rparr>,
          90.1)"
  unfolding losses_def self1_simps l_valid l_windows ebind_Inr prod.case l_stack1 stack_clip l_pm
    l_decode l_pos1 l_cnt l_norm Let_def l_sel_gt sel_clip_pos l_cls_logits l_focal l_giou l_couple
    sel_clip_logits l_clip_pos l_reg
  apply (simp add: fsum_def fsum_replicate loss_weight_of_def final_loss_of_def pymax_def)
  done

lemma losses_eval_neg:
  "losses fns1 self1 100 clip_target_neg clip_logits1 [[[True]]] [[[[Fin 0]]]] [[[zeros 34]]]
      [[[0]]] [[(1, 1)]] [[[[Fin 0]]]] [[[[Fin 0]]]]
   = Inr (\<lparr>cls_loss = Fin (10 / 901), reg_loss = Fin 0, clip_loss = Fin (2000 / 901),
            final_loss = Fin (0.3 * (10 / 901) + 0.4 * (2000 / 901))\<rparr>,
          90.1)"
  unfolding losses_def self1_simps l_valid l_windows ebind_Inr prod.case l_stack1 stack_clip l_pm
    l_decode l_pos0 l_cnt l_norm Let_def l_sel_gt sel_clip_neg l_cls_logits l_focal l_giou l_couple
    sel_clip_logits l_clip_neg l_reg
  apply (simp add: fsum_def fsum_replicate loss_weight_of_def final_loss_of_def pymax_def)
  done


text \<open>
  C7, as stated, fails where the regression loss is below 0.01. With the configured
  weight \<open>-1\<close>, one positive location and the loss normalizer 100: the source returns the
  regression loss \<open>5/901\<close> and weighs it by \<open>cls_loss / 0.01\<close>, the claim by
  \<open>cls_loss / reg_loss\<close>, and the two final losses differ. With no positive location the
  regression loss is 0 and the claimed ratio divides by zero: the claimed final loss is
  NaN, the returned one is a number.
\<close>

theorem final_loss_ratio_counterexample:
  "losses fns1 self1 100 clip_target_pos clip_logits1 [[[True]]] [[[[Fin 0]]]] [[[zeros 34]]]
      [[[1]]] [[(1, 1)]] [[[[Fin 0]]]] [[[[Fin 0]]]]
   = Inr (\<lparr>cls_loss = Fin (5 / 901), reg_loss = Fin (5 / 901), clip_loss = Fin (2000 / 901),
            final_loss = Fin (0.3 * (5 / 901) + 0.4 * (2000 / 901) + 0.3 * ((5 / 901) * (500 / 901)))\<rparr>,
          90.1)
   \<and> final_loss_claimed (train_loss_weight self1) (Fin (5 / 901)) (Fin (2000 / 901)) (Fin (5 / 901))
       = Fin (0.3 * (5 / 901) + 0.4 * (2000 / 901) + 0.3 * ((5 / 901) * 1))
   \<and> Fin (0.3 * (5 / 901) + 0.4 * (2000 / 901) + 0.3 * ((5 / 901) * (500 / 901)))
       \<noteq> Fin (0.3 * (5 / 901) + 0.4 * (2000 / 901) + 0.3 * ((5 / 901) * 1))
   \<and> losses fns1 self1 100 clip_target_neg clip_logits1 [[[True]]] [[[[Fin 0]]]] [[[zeros 34]]]
      [[[0]]] [[(1, 1)]] [[[[Fin 0]]]] [[[[Fin 0]]]]
   = Inr (\<lparr>cls_loss = Fin (10 / 901), reg_loss = Fin 0, clip_loss = Fin (2000 / 901),
            final_loss = Fin (0.3 * (10 / 901) + 0.4 * (2000 / 901))\<rparr>,
          90.1)
   \<and> final_loss_claimed (train_loss_weight self1) (Fin (10 / 901)) (Fin (2000 / 901)) (Fin 0) = NaN"
proof -
  have a: "final_loss_claimed (train_loss_weight self1) (Fin (5 / 901)) (Fin (2000 / 901)) (Fin (5 / 901))
       = Fin (0.3 * (5 / 901) + 0.4 * (2000 / 901) + 0.3 * ((5 / 901) * 1))"
    by (simp add: final_loss_claimed_def loss_weight_claimed_def self1_simps)
  have b: "Fin (0.3 * (5 / 901) + 0.4 * (2000 / 901) + 0.3 * ((5 / 901) * (500 / 901)))
       \<noteq> Fin (0.3 * (5 / 901) + 0.4 * (2000 / 901) + 0.3 * ((5 / 901) * 1))"
    by simp
  have c: "final_loss_claimed (train_loss_weight self1) (Fin (10 / 901)) (Fin (2000 / 901)) (Fin 0) = NaN"
    by (simp add: final_loss_claimed_def loss_weight_claimed_def self1_simps inf_of_sign_def)
  from losses_eval_pos a b losses_eval_neg c show ?thesis by (intro conjI)
qed

text \<open>The amended statement at the positive input of the counterexample.\<close>

theorem final_loss_combination_witness:
  "losses fns1 self1 100 clip_target_pos clip_logits1 [[[True]]] [[[[Fin 0]]]] [[[zeros 34]]]
      [[[1]]] [[(1, 1)]] [[[[Fin 0]]]] [[[[Fin 0]]]]
   = Inr (\<lparr>cls_loss = Fin (5 / 901), reg_loss = Fin (5 / 901), clip_loss = Fin (2000 / 901),
            final_loss = Fin (0.3 * (5 / 901) + 0.4 * (2000 / 901) + 0.3 * ((5 / 901) * (500 / 901)))\<rparr>,
          90.1)
   \<and> Fin (0.3 * (5 / 901) + 0.4 * (2000 / 901) + 0.3 * ((5 / 901) * (500 / 901)))
       = Fin (0.3 * (5 / 901) + 0.4 * (2000 / 901) + 0.3 * ((5 / 901) * ((5 / 901) / max (5 / 901) 0.01)))"
proof -
  let ?out = "\<lparr>cls_loss = Fin (5 / 901), reg_loss = Fin (5 / 901), clip_loss = Fin (2000 / 901),
            final_loss = Fin (0.3 * (5 / 901) + 0.4 * (2000 / 901) + 0.3 * ((5 / 901) * (500 / 901)))\<rparr>"
  from final_loss_combination[OF losses_eval_pos]
  have "\<forall>c k r. cls_loss ?out = Fin c \<and> clip_loss ?out = Fin k \<and> reg_loss ?out = Fin r \<longrightarrow>
             final_loss ?out =
               Fin (0.3 * c + 0.4 * k
                    + 0.3 * (r * (if train_loss_weight self1 > 0 then train_loss_weight self1
                                  else c / max r 0.01)))"
    by (rule conjunct2)
  then have "final_loss ?out =
               Fin (0.3 * (5 / 901) + 0.4 * (2000 / 901)
                    + 0.3 * ((5 / 901) * (if train_loss_weight self1 > 0 then train_loss_weight self1
                                  else (5 / 901) / max (5 / 901) 0.01)))"
    by (elim allE[of _ "5 / 901"] allE[of _ "2000 / 901"]) simp
  then have "Fin (0.3 * (5 / 901) + 0.4 * (2000 / 901) + 0.3 * ((5 / 901) * (500 / 901)))
       = Fin (0.3 * (5 / 901) + 0.4 * (2000 / 901) + 0.3 * ((5 / 901) * ((5 / 901) / max (5 / 901) 0.01)))"
    by (simp add: self1_simps)
  with losses_eval_pos show ?thesis by (intro conjI)
qed

text \<open>
  The theorem at one valid location with one class: with a positive target the
  regression loss is \<open>0.5 / 90.1\<close>; with a zero target it is 0.
\<close>

theorem regression_loss_witness:
  "losses fns1 self1 100 clip_target_pos clip_logits1 [[[True]]] [[[[Fin 0]]]] [[[zeros 34]]]
      [[[1]]] [[(1, 1)]] [[[[Fin 0]]]] [[[[Fin 0]]]]
   = Inr (\<lparr>cls_loss = Fin (5 / 901), reg_loss = Fin (5 / 901), clip_loss = Fin (2000 / 901),
            final_loss = Fin (0.3 * (5 / 901) + 0.4 * (2000 / 901) + 0.3 * ((5 / 901) * (500 / 901)))\<rparr>,
          90.1)
   \<and> Fin (5 / 901) = fdiv (fsum (map2 (ctr_diou_loss_1d fns1) [(Fin 8, Fin 8)] [(1, 1)])) (Fin 90.1)
   \<and> losses fns1 self1 100 clip_target_neg clip_logits1 [[[True]]] [[[[Fin 0]]]] [[[zeros 34]]]
      [[[0]]] [[(1, 1)]] [[[[Fin 0]]]] [[[[Fin 0]]]]
   = Inr (\<lparr>cls_loss = Fin (10 / 901), reg_loss = Fin 0, clip_loss = Fin (2000 / 901),
            final_loss = Fin (0.3 * (10 / 901) + 0.4 * (2000 / 901))\<rparr>,
          90.1)
   \<and> pos_mask [[[0]]] [[True]] = Inr [[False]]
   \<and> pos_mask [[[1]]] [[True]] = Inr [[True]]"
proof -
  let ?out = "\<lparr>cls_loss = Fin (5 / 901), reg_loss = Fin (5 / 901), clip_loss = Fin (2000 / 901),
            final_loss = Fin (0.3 * (5 / 901) + 0.4 * (2000 / 901) + 0.3 * ((5 / 901) * (500 / 901)))\<rparr>"
  from regression_loss[OF losses_eval_pos]
  obtain valid_mask gt_cls pm out_start_logits out_end_logits decoded_offsets pred_offsets gt_offsets'
    where f: "cat1 [[[True]]] = Inr valid_mask" "stack [[[1::real]]] = Inr gt_cls"
      "pos_mask gt_cls valid_mask = Inr pm"
      "neighbour_logits (num_bins self1) [[[[Fin 0]]]] [[[[Fin 0]]]] = Inr (out_start_logits, out_end_logits)"
      "decode_offset_training [[[zeros 34]]] out_start_logits out_end_logits = Inr decoded_offsets"
      "positive_offsets decoded_offsets pm gt_cls [[(1, 1)]] = Inr (pred_offsets, gt_offsets')"
    and g: "if count_true pm = 0
        then pred_offsets = []
           \<and> reg_loss ?out = fmul (Fin 0) (fsum (concat (map (\<lambda>(l, r). [l, r]) pred_offsets)))
           \<and> reg_loss ?out = Fin 0
        else reg_loss ?out
               = fdiv (fsum (map2 (ctr_diou_loss_1d fns1) pred_offsets gt_offsets')) (Fin 90.1)"
    by blast
  from f(1,2)[unfolded l_valid l_stack1] have v: "valid_mask = [[True]]" "gt_cls = [[[1]]]"
    by auto
  from f(3)[unfolded v l_pm] have pm: "pm = [[True]]" by simp
  from f(4)[unfolded self1_simps l_windows]
  have w: "out_start_logits = [[[[zeros 17]]]]" "out_end_logits = [[[[zeros 17]]]]"
    by auto
  from f(5)[unfolded w l_decode] have d: "decoded_offsets = [[[(Fin 8, Fin 8)]]]" by simp
  from f(6)[unfolded d v pm l_pos1] have p: "pred_offsets = [(Fin 8, Fin 8)]" "gt_offsets' = [(1, 1)]"
    by auto
  from g pm p have "Fin (5 / 901) = fdiv (fsum (map2 (ctr_diou_loss_1d fns1) [(Fin 8, Fin 8)] [(1, 1)])) (Fin 90.1)"
    by (simp add: l_cnt)
  with losses_eval_pos losses_eval_neg l_pm show ?thesis by (intro conjI)
qed

end
